theory Spec2Isabelle
  imports Main "HOL-Library.Word"
begin

unbundle bit_operations_syntax

section \<open>TMC2660 stepper driver interface (src/Movement/StepperDrivers/TMC2660.cpp)\<close>

text \<open>
  A shallow embedding of the TMC2660 driver subsystem. \<open>uint32_t\<close>, \<open>unsigned int\<close>
  and \<open>int\<close> are 32-bit words (the target is a 32-bit ARM); \<open>int\<close> values are read
  with \<open>sint\<close> and compared with the signed orders. The class \<open>TmcDriverState\<close> is a
  record, its methods are functions from the old record to the new one (with the returned
  value in front when there is one). Methods and functions that touch the file-level
  statics or the hardware work on the record \<open>sys\<close> of those and take the index of the
  driver in \<open>driverStates\<close>.
\<close>

type_synonym u32 = "32 word"

subsection \<open>Constants\<close>

named_theorems tmc_consts \<open>the numeric constants of TMC2660.cpp\<close>

definition DefaultMicrosteppingShift :: u32 where
  "DefaultMicrosteppingShift = 4"

definition DefaultInterpolation :: bool where
  "DefaultInterpolation = True"

definition DefaultStallDetectThreshold :: u32 where
  "DefaultStallDetectThreshold = 1"

definition DefaultStallDetectFiltered :: bool where
  "DefaultStallDetectFiltered = False"

definition DefaultMinimumStepsPerSecond :: u32 where
  "DefaultMinimumStepsPerSecond = 200"

definition DefaultStallGuardThreshold :: u32 where
  "DefaultStallGuardThreshold = 1"

definition TMC_REG_DRVCTRL :: u32 where
  "TMC_REG_DRVCTRL = 0"

definition TMC_REG_CHOPCONF :: u32 where
  "TMC_REG_CHOPCONF = 0x80000"

definition TMC_REG_SMARTEN :: u32 where
  "TMC_REG_SMARTEN = 0xA0000"

definition TMC_REG_SGCSCONF :: u32 where
  "TMC_REG_SGCSCONF = 0xC0000"

definition TMC_REG_DRVCONF :: u32 where
  "TMC_REG_DRVCONF = 0xE0000"

definition TMC_DATA_MASK :: u32 where
  "TMC_DATA_MASK = 0x0001FFFF"

definition TMC_DRVCONF_RDSEL_1 :: u32 where
  "TMC_DRVCONF_RDSEL_1 = push_bit 4 1"

definition TMC_DRVCONF_VSENSE :: u32 where
  "TMC_DRVCONF_VSENSE = push_bit 6 1"

definition TMC_DRVCONF_TS2G_0P8 :: u32 where
  "TMC_DRVCONF_TS2G_0P8 = push_bit 8 3"

definition TMC_CHOPCONF_TOFF_MASK :: u32 where
  "TMC_CHOPCONF_TOFF_MASK = 15"

definition TMC_CHOPCONF_TOFF_SHIFT :: nat where
  "TMC_CHOPCONF_TOFF_SHIFT = 0"

definition TMC_CHOPCONF_TOFF :: "u32 \<Rightarrow> u32" where
  "TMC_CHOPCONF_TOFF n = push_bit 0 (n AND 15)"

definition TMC_CHOPCONF_HSTRT :: "u32 \<Rightarrow> u32" where
  "TMC_CHOPCONF_HSTRT n = push_bit 4 (n AND 7)"

definition TMC_CHOPCONF_HEND :: "u32 \<Rightarrow> u32" where
  "TMC_CHOPCONF_HEND n = push_bit 7 (n AND 15)"

definition TMC_CHOPCONF_HDEC :: "u32 \<Rightarrow> u32" where
  "TMC_CHOPCONF_HDEC n = push_bit 11 (n AND 3)"

definition TMC_CHOPCONF_RNDTF :: u32 where
  "TMC_CHOPCONF_RNDTF = push_bit 13 1"

definition TMC_CHOPCONF_CHM :: u32 where
  "TMC_CHOPCONF_CHM = push_bit 14 1"

definition TMC_CHOPCONF_TBL_MASK :: u32 where
  "TMC_CHOPCONF_TBL_MASK = push_bit 15 3"

definition TMC_CHOPCONF_TBL_SHIFT :: nat where
  "TMC_CHOPCONF_TBL_SHIFT = 15"

definition TMC_CHOPCONF_TBL :: "u32 \<Rightarrow> u32" where
  "TMC_CHOPCONF_TBL n = push_bit 15 (n AND 3)"

definition TMC_DRVCTRL_MRES_MASK :: u32 where
  "TMC_DRVCTRL_MRES_MASK = 0x0F"

definition TMC_DRVCTRL_MRES_SHIFT :: nat where
  "TMC_DRVCTRL_MRES_SHIFT = 0"

definition TMC_DRVCTRL_MRES_16 :: u32 where
  "TMC_DRVCTRL_MRES_16 = 0x04"

definition TMC_DRVCTRL_INTPOL :: u32 where
  "TMC_DRVCTRL_INTPOL = push_bit 9 1"

definition TMC_SGCSCONF_CS_MASK :: u32 where
  "TMC_SGCSCONF_CS_MASK = 31"

definition TMC_SGCSCONF_CS :: "u32 \<Rightarrow> u32" where
  "TMC_SGCSCONF_CS n = push_bit 0 (n AND 31)"

definition TMC_SGCSCONF_SGT_MASK :: u32 where
  "TMC_SGCSCONF_SGT_MASK = push_bit 8 127"

definition TMC_SGCSCONF_SGT_SHIFT :: nat where
  "TMC_SGCSCONF_SGT_SHIFT = 8"

definition TMC_SGCSCONF_SGT :: "u32 \<Rightarrow> u32" where
  "TMC_SGCSCONF_SGT n = push_bit 8 (n AND 127)"

definition TMC_SGCSCONF_SGT_SFILT :: u32 where
  "TMC_SGCSCONF_SGT_SFILT = push_bit 16 1"

definition NumRegisters :: nat where
  "NumRegisters = 5"

text \<open>Register numbers, in priority order, most urgent first.\<close>

definition DriveControl :: nat where
  "DriveControl = 0"

definition StallGuardConfig :: nat where
  "StallGuardConfig = 1"

definition ChopperControl :: nat where
  "ChopperControl = 2"

definition DriveConfig :: nat where
  "DriveConfig = 3"

definition SmartEnable :: nat where
  "SmartEnable = 4"

definition UpdateAllRegisters :: u32 where
  "UpdateAllRegisters = push_bit NumRegisters 1 - 1"

definition defaultChopConfReg :: u32 where
  "defaultChopConfReg =
     TMC_REG_CHOPCONF OR TMC_CHOPCONF_TBL 2 OR TMC_CHOPCONF_HDEC 0 OR TMC_CHOPCONF_HEND 3
       OR TMC_CHOPCONF_HSTRT 3 OR TMC_CHOPCONF_TOFF 4"

definition defaultSgscConfReg :: u32 where
  "defaultSgscConfReg = TMC_REG_SGCSCONF OR TMC_SGCSCONF_SGT DefaultStallGuardThreshold"

definition defaultDrvConfReg :: u32 where
  "defaultDrvConfReg =
     TMC_REG_DRVCONF OR TMC_DRVCONF_RDSEL_1 OR TMC_DRVCONF_VSENSE OR TMC_DRVCONF_TS2G_0P8 OR 0"

definition defaultDrvCtrlReg :: u32 where
  "defaultDrvCtrlReg = TMC_REG_DRVCTRL OR TMC_DRVCTRL_MRES_16 OR TMC_DRVCTRL_INTPOL"

definition defaultSmartEnReg :: u32 where
  "defaultSmartEnReg = TMC_REG_SMARTEN OR 0"

text \<open>
  Modelled from the spec: the header TMC2660.h, which declares the bits of the 20-bit
  status word, is not among the sources. The spec gives the read-back layout (with
  RDSEL = 1) as SG[0], OT[1], OTPW[2], S2G[3], OLA[5], OLB[6], STST[7], LOAD[19:10].
\<close>

definition TMC_RR_SG :: u32 where
  "TMC_RR_SG = push_bit 0 1"

definition TMC_RR_OT :: u32 where
  "TMC_RR_OT = push_bit 1 1"

definition TMC_RR_OTPW :: u32 where
  "TMC_RR_OTPW = push_bit 2 1"

definition TMC_RR_S2G :: u32 where
  "TMC_RR_S2G = push_bit 3 1"

definition TMC_RR_OLA :: u32 where
  "TMC_RR_OLA = push_bit 5 1"

definition TMC_RR_OLB :: u32 where
  "TMC_RR_OLB = push_bit 6 1"

definition TMC_RR_STST :: u32 where
  "TMC_RR_STST = push_bit 7 1"

definition TMC_RR_SG_LOAD_SHIFT :: nat where
  "TMC_RR_SG_LOAD_SHIFT = 10"

text \<open>The status bits that \<open>ReadLiveStatus\<close> and \<open>ReadAccumulatedStatus\<close> report.\<close>

definition TMC_RR_REPORTED :: u32 where
  "TMC_RR_REPORTED =
     TMC_RR_SG OR TMC_RR_OT OR TMC_RR_OTPW OR TMC_RR_S2G OR TMC_RR_OLA OR TMC_RR_OLB OR TMC_RR_STST"

lemmas [tmc_consts] =
  DefaultMicrosteppingShift_def DefaultInterpolation_def DefaultStallDetectThreshold_def
  DefaultStallDetectFiltered_def DefaultMinimumStepsPerSecond_def DefaultStallGuardThreshold_def
  TMC_REG_DRVCTRL_def TMC_REG_CHOPCONF_def TMC_REG_SMARTEN_def TMC_REG_SGCSCONF_def
  TMC_REG_DRVCONF_def TMC_DATA_MASK_def TMC_DRVCONF_RDSEL_1_def TMC_DRVCONF_VSENSE_def
  TMC_DRVCONF_TS2G_0P8_def TMC_CHOPCONF_TOFF_MASK_def TMC_CHOPCONF_TOFF_SHIFT_def
  TMC_CHOPCONF_TOFF_def TMC_CHOPCONF_HSTRT_def TMC_CHOPCONF_HEND_def TMC_CHOPCONF_HDEC_def
  TMC_CHOPCONF_RNDTF_def TMC_CHOPCONF_CHM_def TMC_CHOPCONF_TBL_MASK_def
  TMC_CHOPCONF_TBL_SHIFT_def TMC_CHOPCONF_TBL_def TMC_DRVCTRL_MRES_MASK_def
  TMC_DRVCTRL_MRES_SHIFT_def TMC_DRVCTRL_MRES_16_def TMC_DRVCTRL_INTPOL_def
  TMC_SGCSCONF_CS_MASK_def TMC_SGCSCONF_CS_def TMC_SGCSCONF_SGT_MASK_def
  TMC_SGCSCONF_SGT_SHIFT_def TMC_SGCSCONF_SGT_def TMC_SGCSCONF_SGT_SFILT_def
  NumRegisters_def DriveControl_def StallGuardConfig_def ChopperControl_def DriveConfig_def
  SmartEnable_def UpdateAllRegisters_def defaultChopConfReg_def defaultSgscConfReg_def
  defaultDrvConfReg_def defaultDrvCtrlReg_def defaultSmartEnReg_def
  TMC_RR_SG_def TMC_RR_OT_def TMC_RR_OTPW_def TMC_RR_S2G_def TMC_RR_OLA_def TMC_RR_OLB_def
  TMC_RR_STST_def TMC_RR_SG_LOAD_SHIFT_def TMC_RR_REPORTED_def

subsection \<open>The per-driver state\<close>

text \<open>
  \<open>registers\<close> is the C array \<open>uint32_t registers[NumRegisters]\<close>: a function on
  indices, of which the code only ever uses those below \<open>NumRegisters\<close> (the five named
  constants, and \<open>regNum\<close> in \<open>StartTransfer\<close>, which stops at \<open>NumRegisters - 1\<close>).
\<close>

record TmcDriverState =
  registers :: "nat \<Rightarrow> u32"
  pin :: u32
  configuredChopConfReg :: u32
  registersToUpdate :: u32
  axisNumber :: u32
  microstepShiftFactor :: u32
  maxStallStepInterval :: u32
  minSgLoadRegister :: u32
  maxSgLoadRegister :: u32
  lastReadStatus :: u32
  accumulatedStatus :: u32
  enabled :: bool

datatype DriverMode = constantOffTime | randomOffTime | spreadCycle | unknown

text \<open>
  What a method appends to its \<open>StringRef\<close> argument: the literal of a \<open>cat\<close>, or
  the arguments of one of the two \<open>catf\<close> calls (the formatting itself is the
  library's). The threshold is the value \<open>%d\<close> prints.
\<close>

datatype reply_item =
    Cat string
  | CatfStallConfig int string u32 u32
  | CatfSgMinMax u32 u32

definition ResetLoadRegisters :: "TmcDriverState \<Rightarrow> TmcDriverState" where
  "ResetLoadRegisters d = d\<lparr>minSgLoadRegister := 1023, maxSgLoadRegister := 0\<rparr>"

definition SetAxisNumber :: "u32 \<Rightarrow> TmcDriverState \<Rightarrow> TmcDriverState" where
  "SetAxisNumber p_axisNumber d = d\<lparr>axisNumber := p_axisNumber\<rparr>"

definition WriteAll :: "TmcDriverState \<Rightarrow> TmcDriverState" where
  "WriteAll d = d\<lparr>registersToUpdate := UpdateAllRegisters\<rparr>"

definition UpdateChopConfRegister :: "TmcDriverState \<Rightarrow> TmcDriverState" where
  "UpdateChopConfRegister d =
     d\<lparr>registers := (registers d)(ChopperControl :=
          (if enabled d then configuredChopConfReg d
           else configuredChopConfReg d AND NOT TMC_CHOPCONF_TOFF_MASK)),
       registersToUpdate := registersToUpdate d OR push_bit ChopperControl 1\<rparr>"

definition SetChopConf :: "u32 \<Rightarrow> TmcDriverState \<Rightarrow> bool \<times> TmcDriverState" where
  "SetChopConf newVal d =
     (let toff = drop_bit TMC_CHOPCONF_TOFF_SHIFT (newVal AND TMC_CHOPCONF_TOFF_MASK) in
      if toff = 0 \<or> (toff = 1 \<and> newVal AND TMC_CHOPCONF_TBL_MASK = 0) then (False, d)
      else (True, UpdateChopConfRegister
              (d\<lparr>configuredChopConfReg := (newVal AND 0x0001FFFF) OR TMC_REG_CHOPCONF\<rparr>)))"

definition SetOffTime :: "u32 \<Rightarrow> TmcDriverState \<Rightarrow> bool \<times> TmcDriverState" where
  "SetOffTime newVal d =
     (if newVal > 15 then (False, d)
      else SetChopConf
             ((configuredChopConfReg d AND NOT TMC_CHOPCONF_TOFF_MASK)
               OR (push_bit TMC_CHOPCONF_TOFF_SHIFT newVal AND TMC_CHOPCONF_TOFF_MASK)) d)"

text \<open>
  \<open>SetDriverMode\<close> switches on an \<open>unsigned int\<close> that it compares with the values of
  the enumeration \<open>DriverMode\<close>, declared outside the sources: the argument is taken as the
  enumeration value it denotes, every value other than the three cases being \<open>default\<close>.
\<close>

fun SetDriverMode :: "DriverMode \<Rightarrow> TmcDriverState \<Rightarrow> bool \<times> TmcDriverState" where
  "SetDriverMode constantOffTime d =
     SetChopConf ((configuredChopConfReg d AND NOT TMC_CHOPCONF_RNDTF) OR TMC_CHOPCONF_CHM) d"
| "SetDriverMode randomOffTime d =
     SetChopConf (configuredChopConfReg d OR TMC_CHOPCONF_RNDTF OR TMC_CHOPCONF_CHM) d"
| "SetDriverMode spreadCycle d =
     SetChopConf (configuredChopConfReg d AND NOT (TMC_CHOPCONF_RNDTF OR TMC_CHOPCONF_CHM)) d"
| "SetDriverMode unknown d = (False, d)"

definition GetDriverMode :: "TmcDriverState \<Rightarrow> DriverMode" where
  "GetDriverMode d =
     (if configuredChopConfReg d AND TMC_CHOPCONF_CHM = 0 then spreadCycle
      else if configuredChopConfReg d AND TMC_CHOPCONF_RNDTF = 0 then constantOffTime
      else randomOffTime)"

definition SetMicrostepping :: "u32 \<Rightarrow> bool \<Rightarrow> TmcDriverState \<Rightarrow> bool \<times> TmcDriverState" where
  "SetMicrostepping shift interpolate d =
     (let d1 = d\<lparr>microstepShiftFactor := shift\<rparr>;
          drvCtrlReg = registers d1 DriveControl AND NOT TMC_DRVCTRL_MRES_MASK;
          drvCtrlReg = drvCtrlReg
            OR (push_bit TMC_DRVCTRL_MRES_SHIFT (8 - shift) AND TMC_DRVCTRL_MRES_MASK);
          drvCtrlReg = (if interpolate then drvCtrlReg OR TMC_DRVCTRL_INTPOL
                        else drvCtrlReg AND NOT TMC_DRVCTRL_INTPOL)
      in (True, d1\<lparr>registers := (registers d1)(DriveControl := drvCtrlReg),
                   registersToUpdate := registersToUpdate d1 OR push_bit DriveControl 1\<rparr>))"

text \<open>
  \<open>SetCurrent\<close> takes a \<open>float\<close>, clamps it to 100.0 .. 2400.0 and truncates it to
  \<open>iCurrent\<close>. The floating-point part is outside the embedding: the method is modelled
  from \<open>iCurrent\<close> on.
\<close>

definition SetCurrent :: "u32 \<Rightarrow> TmcDriverState \<Rightarrow> TmcDriverState" where
  "SetCurrent iCurrent d =
     (let csBits = (32 * iCurrent - 1600) div 3236 in
      d\<lparr>registers := (registers d)(StallGuardConfig :=
           (registers d StallGuardConfig AND NOT TMC_SGCSCONF_CS_MASK) OR TMC_SGCSCONF_CS csBits),
        registersToUpdate := registersToUpdate d OR push_bit StallGuardConfig 1\<rparr>)"

definition Enable :: "bool \<Rightarrow> TmcDriverState \<Rightarrow> TmcDriverState" where
  "Enable en d =
     (if enabled d \<noteq> en then
        let d1 = (if en then d\<lparr>accumulatedStatus := accumulatedStatus d AND NOT TMC_RR_SG,
                               lastReadStatus := lastReadStatus d AND NOT TMC_RR_SG\<rparr>
                  else d)
        in UpdateChopConfRegister (d1\<lparr>enabled := en\<rparr>)
      else d)"

definition ReadLiveStatus :: "TmcDriverState \<Rightarrow> u32" where
  "ReadLiveStatus d =
     (let ret = lastReadStatus d AND TMC_RR_REPORTED in
      if enabled d then ret else ret AND NOT TMC_RR_SG)"

text \<open>
  The body between \<open>cpu_irq_save\<close> and \<open>cpu_irq_restore\<close> runs with interrupts
  disabled; the function as a whole is one step of the model.
\<close>

definition ReadAccumulatedStatus :: "u32 \<Rightarrow> TmcDriverState \<Rightarrow> u32 \<times> TmcDriverState" where
  "ReadAccumulatedStatus bitsToKeep d =
     (let mask = (if enabled d then 0xFFFFFFFF else NOT TMC_RR_SG);
          bitsToKeep = bitsToKeep AND mask;
          status = accumulatedStatus d
      in (status AND TMC_RR_REPORTED AND mask,
          d\<lparr>accumulatedStatus := accumulatedStatus d AND bitsToKeep\<rparr>))"

text \<open>
  Modelled from the spec: the template \<open>constrain\<close> is declared outside the sources. The
  spec says the threshold setter clamps its argument to the range; at type \<open>int\<close> the
  comparisons are signed.
\<close>

definition constrain_int :: "u32 \<Rightarrow> u32 \<Rightarrow> u32 \<Rightarrow> u32" where
  "constrain_int val vmin vmax = (if val <s vmin then vmin else if vmax <s val then vmax else val)"

definition SetStallDetectThreshold :: "u32 \<Rightarrow> TmcDriverState \<Rightarrow> TmcDriverState" where
  "SetStallDetectThreshold sgThreshold d =
     (let sgVal = constrain_int sgThreshold (- 64) 63 AND 127 in
      d\<lparr>registers := (registers d)(StallGuardConfig :=
           (registers d StallGuardConfig AND NOT TMC_SGCSCONF_SGT_MASK)
             OR push_bit TMC_SGCSCONF_SGT_SHIFT sgVal),
        registersToUpdate := registersToUpdate d OR push_bit StallGuardConfig 1\<rparr>)"

definition SetStallDetectFilter :: "bool \<Rightarrow> TmcDriverState \<Rightarrow> TmcDriverState" where
  "SetStallDetectFilter sgFilter d =
     d\<lparr>registers := (registers d)(StallGuardConfig :=
          (if sgFilter then registers d StallGuardConfig OR TMC_SGCSCONF_SGT_SFILT
           else registers d StallGuardConfig AND NOT TMC_SGCSCONF_SGT_SFILT)),
       registersToUpdate := registersToUpdate d OR push_bit StallGuardConfig 1\<rparr>"

text \<open>
  \<open>StepClockRate\<close> is a constant of the surrounding firmware, declared outside the
  sources: the functions that use it take it as their first argument.
\<close>

definition SetStallMinimumStepsPerSecond :: "u32 \<Rightarrow> u32 \<Rightarrow> TmcDriverState \<Rightarrow> TmcDriverState" where
  "SetStallMinimumStepsPerSecond StepClockRate stepsPerSecond d =
     d\<lparr>maxStallStepInterval := StepClockRate div max stepsPerSecond 1\<rparr>"

text \<open>The argument is a \<open>uint16_t\<close>, widened to 32 bits by the \<open>|\<close>.\<close>

definition SetCoolStep :: "16 word \<Rightarrow> TmcDriverState \<Rightarrow> TmcDriverState" where
  "SetCoolStep coolStepConfig d =
     d\<lparr>registers := (registers d)(SmartEnable := TMC_REG_SMARTEN OR ucast coolStepConfig),
       registersToUpdate := registersToUpdate d OR push_bit SmartEnable 1\<rparr>"


definition AppendDriverStatus ::
  "reply_item list \<Rightarrow> TmcDriverState \<Rightarrow> reply_item list \<times> TmcDriverState" where
  "AppendDriverStatus reply d =
     (let s = lastReadStatus d;
          r1 = (if s AND TMC_RR_OT \<noteq> 0 then reply @ [Cat '' temperature-shutdown!'']
                else if s AND TMC_RR_OTPW \<noteq> 0 then reply @ [Cat '' temperature-warning'']
                else reply);
          r2 = (if s AND TMC_RR_S2G \<noteq> 0 then r1 @ [Cat '' short-to-ground''] else r1);
          r3 = (if s AND TMC_RR_OLA \<noteq> 0 \<and> \<not> (s AND TMC_RR_STST \<noteq> 0)
                then r2 @ [Cat '' open-load-A''] else r2);
          r4 = (if s AND TMC_RR_OLB \<noteq> 0 \<and> \<not> (s AND TMC_RR_STST \<noteq> 0)
                then r3 @ [Cat '' open-load-B''] else r3);
          r5 = (if s AND TMC_RR_STST \<noteq> 0 then r4 @ [Cat '' standstill'']
                else if s AND (TMC_RR_OT OR TMC_RR_OTPW OR TMC_RR_S2G OR TMC_RR_OLA OR TMC_RR_OLB) = 0
                then r4 @ [Cat '' ok'']
                else r4);
          r6 = (if minSgLoadRegister d \<le> maxSgLoadRegister d
                then r5 @ [CatfSgMinMax (minSgLoadRegister d) (maxSgLoadRegister d)]
                else r5 @ [Cat '', SG min/max not available''])
      in (r6, ResetLoadRegisters d))"

text \<open>
  \<open>1u << microstepShiftFactor\<close>; the shift factor is at most 8 once the driver has been
  initialised.
\<close>

definition GetMicrostepping :: "TmcDriverState \<Rightarrow> u32 \<times> bool" where
  "GetMicrostepping d =
     (push_bit (unat (microstepShiftFactor d)) 1,
      registers d DriveControl AND TMC_DRVCTRL_INTPOL \<noteq> 0)"

definition GetChopConf :: "TmcDriverState \<Rightarrow> u32" where
  "GetChopConf d = configuredChopConfReg d AND TMC_DATA_MASK"

definition GetOffTime :: "TmcDriverState \<Rightarrow> u32" where
  "GetOffTime d = drop_bit TMC_CHOPCONF_TOFF_SHIFT (configuredChopConfReg d AND TMC_CHOPCONF_TOFF_MASK)"

subsection \<open>File-level statics and the hardware they drive\<close>

text \<open>
  \<open>driverStates\<close> is the C array \<open>TmcDriverState driverStates[MaxSmartDrivers]\<close>, a
  function on indices; \<open>currentDriver\<close> is the pointer into it, kept as the index of the
  driver it points to (\<open>None\<close> for \<open>nullptr\<close>). Of the hardware the record keeps the
  level of every output pin written through its number, the level of the shared enable
  pin \<open>GlobalTmc2660EnablePin\<close>, and whether the end-of-receive interrupt and its NVIC
  line are enabled. Delays and the set-up of the SPI peripheral are not modelled.
\<close>

record sys =
  numTmc2660Drivers :: nat
  driversPowered :: bool
  driverStates :: "nat \<Rightarrow> TmcDriverState"
  currentDriver :: "nat option"
  spiDataOut :: u32
  spiDataIn :: u32
  pinHigh :: "u32 \<Rightarrow> bool"
  enablePinHigh :: bool
  endRxInterruptEnabled :: bool
  nvicIrqEnabled :: bool

text \<open>
  Modelled from the spec: \<open>cpu_to_be32\<close> and \<open>be32_to_cpu\<close> are macros of the
  vendor library. The firmware is little-endian and the spec has the frame "byte-order
  reversed", so both reverse the four bytes of a word.
\<close>

definition cpu_to_be32 :: "u32 \<Rightarrow> u32" where
  "cpu_to_be32 x =
     push_bit 24 x OR (push_bit 8 x AND 0x00FF0000) OR (drop_bit 8 x AND 0x0000FF00) OR drop_bit 24 x"

definition be32_to_cpu :: "u32 \<Rightarrow> u32" where
  "be32_to_cpu x = cpu_to_be32 x"

definition with_driver :: "nat \<Rightarrow> (TmcDriverState \<Rightarrow> TmcDriverState) \<Rightarrow> sys \<Rightarrow> sys" where
  "with_driver i f g = g\<lparr>driverStates := (driverStates g)(i := f (driverStates g i))\<rparr>"

text \<open>\<open>TmcDriverState::Init\<close>, for the driver at index \<open>i\<close>.\<close>

definition Init :: "u32 \<Rightarrow> u32 \<Rightarrow> u32 \<Rightarrow> nat \<Rightarrow> sys \<Rightarrow> sys" where
  "Init StepClockRate p_axisNumber p_pin i g =
     (let d = (driverStates g i)\<lparr>axisNumber := p_axisNumber, pin := p_pin\<rparr>;
          g1 = g\<lparr>pinHigh := (pinHigh g)(pin d := True)\<rparr>;
          d = d\<lparr>enabled := False\<rparr>;
          d = d\<lparr>registers := (registers d)(DriveControl := defaultDrvCtrlReg)\<rparr>;
          d = d\<lparr>configuredChopConfReg := defaultChopConfReg\<rparr>;
          d = d\<lparr>registers := (registers d)(ChopperControl :=
                 configuredChopConfReg d AND NOT TMC_CHOPCONF_TOFF_MASK)\<rparr>;
          d = d\<lparr>registers := (registers d)(SmartEnable := defaultSmartEnReg)\<rparr>;
          d = d\<lparr>registers := (registers d)(StallGuardConfig := defaultSgscConfReg)\<rparr>;
          d = d\<lparr>registers := (registers d)(DriveConfig := defaultDrvConfReg)\<rparr>;
          d = d\<lparr>registersToUpdate := UpdateAllRegisters\<rparr>;
          d = d\<lparr>lastReadStatus := 0, accumulatedStatus := 0\<rparr>;
          d = ResetLoadRegisters d;
          d = snd (SetMicrostepping DefaultMicrosteppingShift DefaultInterpolation d);
          d = SetStallDetectThreshold DefaultStallDetectThreshold d;
          d = SetStallDetectFilter DefaultStallDetectFiltered d;
          d = SetStallMinimumStepsPerSecond StepClockRate DefaultMinimumStepsPerSecond d
      in g1\<lparr>driverStates := (driverStates g1)(i := d)\<rparr>)"

text \<open>
  \<open>TmcDriverState::TransferDone\<close>, for the driver at index \<open>i\<close>. The step interval
  comes from the motion system, \<open>reprap.GetMove().GetStepInterval\<close>, which is the
  argument \<open>GetStepInterval\<close>.
\<close>

definition TransferDone :: "(u32 \<Rightarrow> u32 \<Rightarrow> u32) \<Rightarrow> nat \<Rightarrow> sys \<Rightarrow> sys" where
  "TransferDone GetStepInterval i g =
     (let d = driverStates g i;
          g1 = g\<lparr>pinHigh := (pinHigh g)(pin d := True)\<rparr>
      in if driversPowered g1 then
           let status = drop_bit 12 (be32_to_cpu (spiDataIn g1));
               interval = GetStepInterval (axisNumber d) (microstepShiftFactor d);
               (status, d) =
                 (if interval = 0 \<or> interval > maxStallStepInterval d
                  then (status AND NOT TMC_RR_SG, d)
                  else
                    let sgLoad = drop_bit TMC_RR_SG_LOAD_SHIFT status AND 1023;
                        d = (if sgLoad < minSgLoadRegister d
                             then d\<lparr>minSgLoadRegister := sgLoad\<rparr> else d);
                        d = (if sgLoad > maxSgLoadRegister d
                             then d\<lparr>maxSgLoadRegister := sgLoad\<rparr> else d)
                    in (status, d));
               d = d\<lparr>lastReadStatus := status\<rparr>;
               d = d\<lparr>accumulatedStatus := accumulatedStatus d OR status\<rparr>
           in g1\<lparr>driverStates := (driverStates g1)(i := d)\<rparr>
         else g1)"

text \<open>
  The \<open>do ... while (regNum < NumRegisters - 1)\<close> loop of \<open>StartTransfer\<close>: it returns
  \<open>regNum\<close> and \<open>mask\<close> (here \<open>msk\<close>) as they are when the loop is left.
\<close>

function StartTransfer_loop :: "u32 \<Rightarrow> nat \<Rightarrow> u32 \<Rightarrow> nat \<times> u32" where
  "StartTransfer_loop toUpdate regNum msk =
     (if toUpdate AND msk \<noteq> 0 then (regNum, msk)
      else if regNum + 1 < NumRegisters - 1
           then StartTransfer_loop toUpdate (regNum + 1) (push_bit 1 msk)
           else (regNum + 1, push_bit 1 msk))"
  by pat_completeness auto
termination
  by (relation "measure (\<lambda>(toUpdate, regNum, msk). NumRegisters - 1 - regNum)") auto

declare StartTransfer_loop.simps [simp del]

text \<open>\<open>TmcDriverState::StartTransfer\<close>, for the driver at index \<open>i\<close>.\<close>

definition StartTransfer :: "nat \<Rightarrow> sys \<Rightarrow> sys" where
  "StartTransfer i g =
     (let g1 = g\<lparr>currentDriver := Some i\<rparr>;
          d = driverStates g1 i;
          (regVal, d) =
            (if registersToUpdate d = 0 then (registers d SmartEnable, d)
             else
               let (regNum, mask) = StartTransfer_loop (registersToUpdate d) 0 1;
                   d = d\<lparr>registersToUpdate := registersToUpdate d AND NOT mask\<rparr>
               in (registers d regNum, d))
      in g1\<lparr>driverStates := (driverStates g1)(i := d),
            pinHigh := (pinHigh g1)(pin d := False),
            spiDataOut := cpu_to_be32 (push_bit 8 regVal),
            endRxInterruptEnabled := True\<rparr>)"

text \<open>
  The interrupt service routine. \<open>++driver\<close> with the wrap-around at
  \<open>driverStates + numTmc2660Drivers\<close> is the same step on the index.
\<close>

definition TMC2660_SPI_Handler :: "(u32 \<Rightarrow> u32 \<Rightarrow> u32) \<Rightarrow> sys \<Rightarrow> sys" where
  "TMC2660_SPI_Handler GetStepInterval g =
     (let stop = (\<lambda>g. g\<lparr>endRxInterruptEnabled := False, currentDriver := None\<rparr>) in
      case currentDriver g of
        None \<Rightarrow> stop g
      | Some driver \<Rightarrow>
          let g1 = TransferDone GetStepInterval driver g in
          if driversPowered g1 then
            let driver = driver + 1;
                driver = (if driver = numTmc2660Drivers g1 then 0 else driver)
            in StartTransfer driver g1
          else stop g1)"

subsection \<open>The public interface, namespace SmartDrivers\<close>

text \<open>
  \<open>MaxSmartDrivers\<close> is a constant of the board configuration and \<open>driverSelectPins\<close>
  an array of it; both are arguments.
\<close>

definition SmartDrivers_Init :: "u32 \<Rightarrow> nat \<Rightarrow> (nat \<Rightarrow> u32) \<Rightarrow> nat \<Rightarrow> sys \<Rightarrow> sys" where
  "SmartDrivers_Init StepClockRate MaxSmartDrivers driverSelectPins numTmcDrivers g =
     (let g = g\<lparr>numTmc2660Drivers := min numTmcDrivers MaxSmartDrivers\<rparr>;
          g = g\<lparr>enablePinHigh := True\<rparr>;
          g = g\<lparr>driversPowered := False\<rparr>
      in fold (\<lambda>driver. Init StepClockRate (of_nat driver) (driverSelectPins driver) driver)
           [0 ..< numTmc2660Drivers g] g)"

definition SmartDrivers_SetAxisNumber :: "nat \<Rightarrow> u32 \<Rightarrow> sys \<Rightarrow> sys" where
  "SmartDrivers_SetAxisNumber driver p_axisNumber g =
     (if driver < numTmc2660Drivers g then with_driver driver (SetAxisNumber p_axisNumber) g else g)"

definition SmartDrivers_SetCurrent :: "nat \<Rightarrow> u32 \<Rightarrow> sys \<Rightarrow> sys" where
  "SmartDrivers_SetCurrent driver iCurrent g =
     (if driver < numTmc2660Drivers g then with_driver driver (SetCurrent iCurrent) g else g)"

definition SmartDrivers_EnableDrive :: "nat \<Rightarrow> bool \<Rightarrow> sys \<Rightarrow> sys" where
  "SmartDrivers_EnableDrive driver en g =
     (if driver < numTmc2660Drivers g then with_driver driver (Enable en) g else g)"

definition SmartDrivers_GetLiveStatus :: "nat \<Rightarrow> sys \<Rightarrow> u32" where
  "SmartDrivers_GetLiveStatus driver g =
     (if driver < numTmc2660Drivers g then ReadLiveStatus (driverStates g driver) else 0)"

definition SmartDrivers_GetAccumulatedStatus :: "nat \<Rightarrow> u32 \<Rightarrow> sys \<Rightarrow> u32 \<times> sys" where
  "SmartDrivers_GetAccumulatedStatus driver bitsToKeep g =
     (if driver < numTmc2660Drivers g
      then (fst (ReadAccumulatedStatus bitsToKeep (driverStates g driver)),
            with_driver driver (\<lambda>d. snd (ReadAccumulatedStatus bitsToKeep d)) g)
      else (0, g))"

text \<open>
  The \<open>while ((uSteps & 1) == 0)\<close> loop of \<open>SmartDrivers::SetMicrostepping\<close>. It has no
  bound of its own, so the model makes not leaving it the value \<open>None\<close>.
\<close>

partial_function (option) SetMicrostepping_loop :: "u32 \<Rightarrow> u32 \<Rightarrow> (u32 \<times> u32) option" where
  "SetMicrostepping_loop uSteps shift =
     (if uSteps AND 1 = 0 then SetMicrostepping_loop (drop_bit 1 uSteps) (shift + 1)
      else Some (uSteps, shift))"

definition SmartDrivers_SetMicrostepping ::
  "nat \<Rightarrow> u32 \<Rightarrow> bool \<Rightarrow> sys \<Rightarrow> (bool \<times> sys) option" where
  "SmartDrivers_SetMicrostepping driver microsteps interpolate g =
     (if driver < numTmc2660Drivers g \<and> microsteps > 0 then
        case SetMicrostepping_loop microsteps 0 of
          None \<Rightarrow> None
        | Some (uSteps, shift) \<Rightarrow>
            if uSteps = 1 \<and> shift \<le> 8
            then Some (True, with_driver driver (\<lambda>d. snd (SetMicrostepping shift interpolate d)) g)
            else Some (False, g)
      else Some (False, g))"

definition SmartDrivers_GetMicrostepping :: "nat \<Rightarrow> sys \<Rightarrow> u32 \<times> bool" where
  "SmartDrivers_GetMicrostepping driver g =
     (if driver < numTmc2660Drivers g then GetMicrostepping (driverStates g driver)
      else (1, False))"

definition SmartDrivers_SetDriverMode :: "nat \<Rightarrow> DriverMode \<Rightarrow> sys \<Rightarrow> bool \<times> sys" where
  "SmartDrivers_SetDriverMode driver mode g =
     (if driver < numTmc2660Drivers g
      then (fst (SetDriverMode mode (driverStates g driver)),
            with_driver driver (\<lambda>d. snd (SetDriverMode mode d)) g)
      else (False, g))"

definition SmartDrivers_GetDriverMode :: "nat \<Rightarrow> sys \<Rightarrow> DriverMode" where
  "SmartDrivers_GetDriverMode driver g =
     (if driver < numTmc2660Drivers g then GetDriverMode (driverStates g driver) else unknown)"

definition SmartDrivers_SetChopperControlRegister :: "nat \<Rightarrow> u32 \<Rightarrow> sys \<Rightarrow> bool \<times> sys" where
  "SmartDrivers_SetChopperControlRegister driver ccr g =
     (if driver < numTmc2660Drivers g
      then (fst (SetChopConf ccr (driverStates g driver)),
            with_driver driver (\<lambda>d. snd (SetChopConf ccr d)) g)
      else (False, g))"

definition SmartDrivers_GetChopperControlRegister :: "nat \<Rightarrow> sys \<Rightarrow> u32" where
  "SmartDrivers_GetChopperControlRegister driver g =
     (if driver < numTmc2660Drivers g then GetChopConf (driverStates g driver) else 0)"

definition SmartDrivers_SetOffTime :: "nat \<Rightarrow> u32 \<Rightarrow> sys \<Rightarrow> bool \<times> sys" where
  "SmartDrivers_SetOffTime driver offTime g =
     (if driver < numTmc2660Drivers g
      then (fst (SetOffTime offTime (driverStates g driver)),
            with_driver driver (\<lambda>d. snd (SetOffTime offTime d)) g)
      else (False, g))"

definition SmartDrivers_GetOffTime :: "nat \<Rightarrow> sys \<Rightarrow> u32" where
  "SmartDrivers_GetOffTime driver g =
     (if driver < numTmc2660Drivers g then GetOffTime (driverStates g driver) else 0)"

definition Spin :: "bool \<Rightarrow> sys \<Rightarrow> sys" where
  "Spin powered g =
     (let wasPowered = driversPowered g;
          g = g\<lparr>driversPowered := powered\<rparr>
      in if powered then
           let g = (if \<not> wasPowered
                    then fold (\<lambda>driver. with_driver driver WriteAll)
                           [0 ..< numTmc2660Drivers g] (g\<lparr>enablePinHigh := False\<rparr>)
                    else g)
           in if currentDriver g = None \<and> numTmc2660Drivers g \<noteq> 0
              then StartTransfer 0 (g\<lparr>nvicIrqEnabled := True\<rparr>)
              else g
         else if wasPowered then g\<lparr>enablePinHigh := True\<rparr>
         else g)"

definition TurnDriversOff :: "sys \<Rightarrow> sys" where
  "TurnDriversOff g = g\<lparr>enablePinHigh := True, driversPowered := False\<rparr>"

definition SmartDrivers_SetStallThreshold :: "nat \<Rightarrow> u32 \<Rightarrow> sys \<Rightarrow> sys" where
  "SmartDrivers_SetStallThreshold driver sgThreshold g =
     (if driver < numTmc2660Drivers g
      then with_driver driver (SetStallDetectThreshold sgThreshold) g else g)"

definition SmartDrivers_SetStallFilter :: "nat \<Rightarrow> bool \<Rightarrow> sys \<Rightarrow> sys" where
  "SmartDrivers_SetStallFilter driver sgFilter g =
     (if driver < numTmc2660Drivers g
      then with_driver driver (SetStallDetectFilter sgFilter) g else g)"

definition SmartDrivers_SetStallMinimumStepsPerSecond :: "u32 \<Rightarrow> nat \<Rightarrow> u32 \<Rightarrow> sys \<Rightarrow> sys" where
  "SmartDrivers_SetStallMinimumStepsPerSecond StepClockRate driver stepsPerSecond g =
     (if driver < numTmc2660Drivers g
      then with_driver driver (SetStallMinimumStepsPerSecond StepClockRate stepsPerSecond) g
      else g)"

definition SmartDrivers_SetCoolStep :: "nat \<Rightarrow> 16 word \<Rightarrow> sys \<Rightarrow> sys" where
  "SmartDrivers_SetCoolStep drive coolStepConfig g =
     (if drive < numTmc2660Drivers g then with_driver drive (SetCoolStep coolStepConfig) g else g)"


definition SmartDrivers_AppendDriverStatus ::
  "nat \<Rightarrow> reply_item list \<Rightarrow> sys \<Rightarrow> reply_item list \<times> sys" where
  "SmartDrivers_AppendDriverStatus driver reply g =
     (if driver < numTmc2660Drivers g
      then (fst (AppendDriverStatus reply (driverStates g driver)),
            with_driver driver (\<lambda>d. snd (AppendDriverStatus reply d)) g)
      else (reply, g))"

subsection \<open>The states the interface can reach\<close>

text \<open>
  \<open>SmartDrivers::Init\<close> is called once, before anything else, while no transfer is in
  flight; after it the main program calls the functions of the interface in any order
  and with any arguments, the SPI interrupt may run between any two of them, and the PDC
  may have written any word to \<open>spiDataIn\<close>. Every function is one step: the
  interleaving of an interrupt with the body of a function is not modelled. The functions
  that only read the state are left out.
\<close>

inductive reachable :: "u32 \<Rightarrow> nat \<Rightarrow> sys \<Rightarrow> bool"
  for StepClockRate :: u32 and MaxSmartDrivers :: nat where
  reach_Init:
    "currentDriver g0 = None \<Longrightarrow>
     reachable StepClockRate MaxSmartDrivers
       (SmartDrivers_Init StepClockRate MaxSmartDrivers driverSelectPins numTmcDrivers g0)"
| reach_SetAxisNumber:
    "reachable StepClockRate MaxSmartDrivers g \<Longrightarrow>
     reachable StepClockRate MaxSmartDrivers (SmartDrivers_SetAxisNumber driver p_axisNumber g)"
| reach_SetCurrent:
    "reachable StepClockRate MaxSmartDrivers g \<Longrightarrow>
     reachable StepClockRate MaxSmartDrivers (SmartDrivers_SetCurrent driver iCurrent g)"
| reach_EnableDrive:
    "reachable StepClockRate MaxSmartDrivers g \<Longrightarrow>
     reachable StepClockRate MaxSmartDrivers (SmartDrivers_EnableDrive driver en g)"
| reach_GetAccumulatedStatus:
    "reachable StepClockRate MaxSmartDrivers g \<Longrightarrow>
     reachable StepClockRate MaxSmartDrivers
       (snd (SmartDrivers_GetAccumulatedStatus driver bitsToKeep g))"
| reach_SetMicrostepping:
    "reachable StepClockRate MaxSmartDrivers g \<Longrightarrow>
     SmartDrivers_SetMicrostepping driver microsteps interpolate g = Some (ok, g') \<Longrightarrow>
     reachable StepClockRate MaxSmartDrivers g'"
| reach_SetDriverMode:
    "reachable StepClockRate MaxSmartDrivers g \<Longrightarrow>
     reachable StepClockRate MaxSmartDrivers (snd (SmartDrivers_SetDriverMode driver mode g))"
| reach_SetChopperControlRegister:
    "reachable StepClockRate MaxSmartDrivers g \<Longrightarrow>
     reachable StepClockRate MaxSmartDrivers
       (snd (SmartDrivers_SetChopperControlRegister driver ccr g))"
| reach_SetOffTime:
    "reachable StepClockRate MaxSmartDrivers g \<Longrightarrow>
     reachable StepClockRate MaxSmartDrivers (snd (SmartDrivers_SetOffTime driver offTime g))"
| reach_Spin:
    "reachable StepClockRate MaxSmartDrivers g \<Longrightarrow>
     reachable StepClockRate MaxSmartDrivers (Spin powered g)"
| reach_TurnDriversOff:
    "reachable StepClockRate MaxSmartDrivers g \<Longrightarrow>
     reachable StepClockRate MaxSmartDrivers (TurnDriversOff g)"
| reach_SetStallThreshold:
    "reachable StepClockRate MaxSmartDrivers g \<Longrightarrow>
     reachable StepClockRate MaxSmartDrivers (SmartDrivers_SetStallThreshold driver sgThreshold g)"
| reach_SetStallFilter:
    "reachable StepClockRate MaxSmartDrivers g \<Longrightarrow>
     reachable StepClockRate MaxSmartDrivers (SmartDrivers_SetStallFilter driver sgFilter g)"
| reach_SetStallMinimumStepsPerSecond:
    "reachable StepClockRate MaxSmartDrivers g \<Longrightarrow>
     reachable StepClockRate MaxSmartDrivers
       (SmartDrivers_SetStallMinimumStepsPerSecond StepClockRate driver stepsPerSecond g)"
| reach_SetCoolStep:
    "reachable StepClockRate MaxSmartDrivers g \<Longrightarrow>
     reachable StepClockRate MaxSmartDrivers (SmartDrivers_SetCoolStep driver coolStepConfig g)"
| reach_AppendDriverStatus:
    "reachable StepClockRate MaxSmartDrivers g \<Longrightarrow>
     reachable StepClockRate MaxSmartDrivers (snd (SmartDrivers_AppendDriverStatus driver reply g))"
| reach_SPI_Handler:
    "reachable StepClockRate MaxSmartDrivers g \<Longrightarrow>
     reachable StepClockRate MaxSmartDrivers (TMC2660_SPI_Handler GetStepInterval g)"
| reach_receive:
    "reachable StepClockRate MaxSmartDrivers g \<Longrightarrow>
     reachable StepClockRate MaxSmartDrivers (g\<lparr>spiDataIn := received\<rparr>)"

subsection \<open>Invariants of a driver\<close>

text \<open>
  The configured chopper register has an off-time, and the off-time field of the chopper
  register to send is zero exactly when the driver is not enabled.
\<close>

definition chop_inv :: "TmcDriverState \<Rightarrow> bool" where
  "chop_inv d \<longleftrightarrow>
     configuredChopConfReg d AND TMC_CHOPCONF_TOFF_MASK \<noteq> 0
     \<and> (registers d ChopperControl AND TMC_CHOPCONF_TOFF_MASK = 0) = (\<not> enabled d)"

text \<open>The fields that \<open>chop_inv\<close> reads.\<close>

definition chop_fields :: "TmcDriverState \<Rightarrow> u32 \<times> u32 \<times> bool" where
  "chop_fields d = (registers d ChopperControl, configuredChopConfReg d, enabled d)"

text \<open>The bitmap of registers to update has no bit beyond those of the five registers.\<close>

definition dirty_ok :: "TmcDriverState \<Rightarrow> bool" where
  "dirty_ok d \<longleftrightarrow> registersToUpdate d AND NOT UpdateAllRegisters = 0"

subsection \<open>Example states\<close>

text \<open>
  The statics as the program starts (zero-initialised, with the initialisers of the
  file), and two drivers initialised on a board with room for ten and a step clock of
  937500 Hz.
\<close>

definition initial_driver :: TmcDriverState where
  "initial_driver =
     \<lparr>registers = (\<lambda>_. 0), pin = 0, configuredChopConfReg = 0, registersToUpdate = 0,
      axisNumber = 0, microstepShiftFactor = 0, maxStallStepInterval = 0,
      minSgLoadRegister = 0, maxSgLoadRegister = 0, lastReadStatus = 0,
      accumulatedStatus = 0, enabled = False\<rparr>"

definition initial_sys :: sys where
  "initial_sys =
     \<lparr>numTmc2660Drivers = 0, driversPowered = False, driverStates = (\<lambda>_. initial_driver),
      currentDriver = None, spiDataOut = 0, spiDataIn = 0, pinHigh = (\<lambda>_. False),
      enablePinHigh = False, endRxInterruptEnabled = False, nvicIrqEnabled = False\<rparr>"

definition example_sys :: sys where
  "example_sys = SmartDrivers_Init 937500 10 (\<lambda>driver. of_nat driver + 40) 2 initial_sys"

text \<open>
  From there: driver 0 is enabled, the power comes up, and the first transfer ends with
  the status word \<open>0x401\<close> received (bytes in wire order) while the axis steps
  every 100 clock ticks: a stall flag and a load of 1.
\<close>

definition enabled_example :: sys where
  "enabled_example = SmartDrivers_EnableDrive 0 True example_sys"

definition powered_example :: sys where
  "powered_example = Spin True enabled_example"

definition polled_example :: sys where
  "polled_example =
     TMC2660_SPI_Handler (\<lambda>axis shift. 100) (powered_example\<lparr>spiDataIn := 0x00104000\<rparr>)"

section \<open>Verification\<close>

subsection \<open>The example state\<close>

lemma upt_0_2: "[0..<2] = [0, 1]"
  by (simp add: upt_rec)

lemma example_num: "numTmc2660Drivers example_sys = 2"
  by (simp add: example_sys_def SmartDrivers_Init_def upt_0_2 Init_def Let_def)

lemma example_driver_1:
  "driverStates example_sys (Suc 0) =
     \<lparr>registers = (\<lambda>_. 0)(0 := 0x204, 1 := 0xC0100, 2 := 0x901B0, 3 := 0xE0350, 4 := 0xA0000),
      pin = 41, configuredChopConfReg = 0x901B4, registersToUpdate = 31,
      axisNumber = 1, microstepShiftFactor = 4, maxStallStepInterval = 4687,
      minSgLoadRegister = 1023, maxSgLoadRegister = 0, lastReadStatus = 0,
      accumulatedStatus = 0, enabled = False\<rparr>"
  by (simp add: example_sys_def SmartDrivers_Init_def upt_0_2 Init_def Let_def initial_sys_def
      initial_driver_def ResetLoadRegisters_def SetMicrostepping_def SetStallDetectThreshold_def
      SetStallDetectFilter_def SetStallMinimumStepsPerSecond_def constrain_int_def tmc_consts
      word_sless_alt fun_upd_twist)

lemma example_driver_1_chop:
  "configuredChopConfReg (driverStates example_sys (Suc 0)) = 0x901B4"
  by (simp add: example_driver_1)

lemma example_driver_0:
  "driverStates example_sys 0 =
     \<lparr>registers = (\<lambda>_. 0)(0 := 0x204, 1 := 0xC0100, 2 := 0x901B0, 3 := 0xE0350, 4 := 0xA0000),
      pin = 40, configuredChopConfReg = 0x901B4, registersToUpdate = 31,
      axisNumber = 0, microstepShiftFactor = 4, maxStallStepInterval = 4687,
      minSgLoadRegister = 1023, maxSgLoadRegister = 0, lastReadStatus = 0,
      accumulatedStatus = 0, enabled = False\<rparr>"
  by (simp add: example_sys_def SmartDrivers_Init_def upt_0_2 Init_def Let_def initial_sys_def
      initial_driver_def ResetLoadRegisters_def SetMicrostepping_def SetStallDetectThreshold_def
      SetStallDetectFilter_def SetStallMinimumStepsPerSecond_def constrain_int_def tmc_consts
      word_sless_alt fun_upd_twist)

lemma example_globals:
  "driversPowered example_sys = False" "currentDriver example_sys = None"
  by (simp_all add: example_sys_def SmartDrivers_Init_def upt_0_2 Init_def Let_def initial_sys_def)

lemma enabled_example_globals:
  "numTmc2660Drivers enabled_example = 2" "driversPowered enabled_example = False"
  "currentDriver enabled_example = None"
  by (simp_all add: enabled_example_def SmartDrivers_EnableDrive_def with_driver_def example_num
      example_globals)

lemma enabled_example_driver_0:
  "driverStates enabled_example 0 =
     \<lparr>registers = (\<lambda>_. 0)(0 := 0x204, 1 := 0xC0100, 2 := 0x901B4, 3 := 0xE0350, 4 := 0xA0000),
      pin = 40, configuredChopConfReg = 0x901B4, registersToUpdate = 31,
      axisNumber = 0, microstepShiftFactor = 4, maxStallStepInterval = 4687,
      minSgLoadRegister = 1023, maxSgLoadRegister = 0, lastReadStatus = 0,
      accumulatedStatus = 0, enabled = True\<rparr>"
  by (simp add: enabled_example_def SmartDrivers_EnableDrive_def with_driver_def example_num
      example_driver_0 Enable_def UpdateChopConfRegister_def ChopperControl_def fun_upd_twist)

lemma powered_example_globals:
  "numTmc2660Drivers powered_example = 2" "driversPowered powered_example = True"
  "currentDriver powered_example = Some 0"
  by (simp_all add: powered_example_def Spin_def Let_def enabled_example_globals upt_0_2
      with_driver_def StartTransfer_def split_def)

lemma powered_example_driver_0:
  "driverStates powered_example 0 = (driverStates enabled_example 0)\<lparr>registersToUpdate := 30\<rparr>"
  by (simp add: powered_example_def Spin_def Let_def enabled_example_globals upt_0_2
      with_driver_def StartTransfer_def split_def WriteAll_def UpdateAllRegisters_def
      NumRegisters_def StartTransfer_loop.simps [of 31 0 1])

lemma polled_example_globals:
  "numTmc2660Drivers polled_example = 2" "driversPowered polled_example = True"
  "currentDriver polled_example = Some 1"
  by (simp_all add: polled_example_def TMC2660_SPI_Handler_def TransferDone_def Let_def
      powered_example_globals StartTransfer_def split_def)

lemma polled_example_driver_0:
  "driverStates polled_example 0 =
     \<lparr>registers = (\<lambda>_. 0)(0 := 0x204, 1 := 0xC0100, 2 := 0x901B4, 3 := 0xE0350, 4 := 0xA0000),
      pin = 40, configuredChopConfReg = 0x901B4, registersToUpdate = 30,
      axisNumber = 0, microstepShiftFactor = 4, maxStallStepInterval = 4687,
      minSgLoadRegister = 1, maxSgLoadRegister = 1, lastReadStatus = 0x401,
      accumulatedStatus = 0x401, enabled = True\<rparr>"
  by (simp add: polled_example_def TMC2660_SPI_Handler_def TransferDone_def Let_def
      powered_example_globals StartTransfer_def split_def powered_example_driver_0
      enabled_example_driver_0 be32_to_cpu_def cpu_to_be32_def TMC_RR_SG_LOAD_SHIFT_def)

lemma example_reachable: "reachable 937500 10 example_sys"
  unfolding example_sys_def by (rule reach_Init) (simp add: initial_sys_def)

lemma polled_example_reachable: "reachable 937500 10 polled_example"
  unfolding polled_example_def powered_example_def enabled_example_def
  by (intro reach_SPI_Handler reach_receive reach_Spin reach_EnableDrive example_reachable)

subsection \<open>Word arithmetic on the fields\<close>

lemma and_15_of_le: "(n::u32) \<le> 15 \<Longrightarrow> n AND 15 = n"
  using less_mask_eq [of n 4]
  by (simp add: mask_eq_exp_minus_1 word_le_nat_alt word_less_nat_alt)

lemma off_time_arg_toff:
  "n \<le> 15 \<Longrightarrow>
   ((c AND NOT TMC_CHOPCONF_TOFF_MASK)
      OR (push_bit TMC_CHOPCONF_TOFF_SHIFT n AND TMC_CHOPCONF_TOFF_MASK))
     AND TMC_CHOPCONF_TOFF_MASK = n"
  by (simp add: TMC_CHOPCONF_TOFF_MASK_def TMC_CHOPCONF_TOFF_SHIFT_def bit.conj_disj_distrib2
      and.assoc and_15_of_le)

lemma off_time_arg_tbl:
  "((c AND NOT TMC_CHOPCONF_TOFF_MASK)
      OR (push_bit TMC_CHOPCONF_TOFF_SHIFT n AND TMC_CHOPCONF_TOFF_MASK))
     AND TMC_CHOPCONF_TBL_MASK = c AND TMC_CHOPCONF_TBL_MASK"
  by (simp add: TMC_CHOPCONF_TOFF_MASK_def TMC_CHOPCONF_TOFF_SHIFT_def TMC_CHOPCONF_TBL_MASK_def
      bit.conj_disj_distrib2 and.assoc)

subsection \<open>The chopper setters\<close>

lemma SetChopConf_accept:
  "fst (SetChopConf v d) =
     (v AND TMC_CHOPCONF_TOFF_MASK \<noteq> 0 \<and>
      \<not> (v AND TMC_CHOPCONF_TOFF_MASK = 1 \<and> v AND TMC_CHOPCONF_TBL_MASK = 0))"
  by (simp add: SetChopConf_def Let_def TMC_CHOPCONF_TOFF_SHIFT_def)

lemma SetChopConf_reject: "\<not> fst (SetChopConf v d) \<Longrightarrow> snd (SetChopConf v d) = d"
  by (auto simp: SetChopConf_def Let_def TMC_CHOPCONF_TOFF_SHIFT_def)

lemma SetOffTime_accept:
  "fst (SetOffTime n d) =
     (1 \<le> n \<and> n \<le> 15 \<and> \<not> (n = 1 \<and> configuredChopConfReg d AND TMC_CHOPCONF_TBL_MASK = 0))"
proof (cases "n \<le> 15")
  case True
  have "(1 \<le> n) = (n \<noteq> 0)"
    by (simp add: word_le_nat_alt unat_eq_0 Suc_le_eq unat_gt_0)
  with True show ?thesis
    by (simp add: SetOffTime_def SetChopConf_accept off_time_arg_toff off_time_arg_tbl
        flip: not_le)
next
  case False
  then show ?thesis by (simp add: SetOffTime_def not_le)
qed

lemma SetOffTime_reject: "\<not> fst (SetOffTime n d) \<Longrightarrow> snd (SetOffTime n d) = d"
  by (simp add: SetOffTime_def SetChopConf_reject split: if_splits)

lemma GetChopConf_SetChopConf:
  "fst (SetChopConf v d) \<Longrightarrow> GetChopConf (snd (SetChopConf v d)) = v AND 0x1FFFF"
  by (auto simp: SetChopConf_def Let_def GetChopConf_def UpdateChopConfRegister_def
      TMC_DATA_MASK_def TMC_REG_CHOPCONF_def bit.conj_disj_distrib2)

text \<open>
  C5. For an in-range driver, \<open>SetOffTime n\<close> returns true exactly when \<open>1 \<le> n \<le> 15\<close>
  and not (\<open>n = 1\<close> while the blanking field of the configured chopper register is 0);
  \<open>SetChopperControlRegister v\<close> returns true exactly when the off-time field of \<open>v\<close> is
  not 0 and not (1 while its blanking field is 0). Whenever either returns false, the
  whole state is as it was before the call: the configured chopper register, the five
  registers and the bitmap of registers to update among the rest.
\<close>

theorem C5_set_off_time:
  "(driver < numTmc2660Drivers g \<longrightarrow>
      fst (SmartDrivers_SetOffTime driver n g) =
        (1 \<le> n \<and> n \<le> 15 \<and>
         \<not> (n = 1 \<and> configuredChopConfReg (driverStates g driver) AND TMC_CHOPCONF_TBL_MASK = 0)))
   \<and> (\<not> fst (SmartDrivers_SetOffTime driver n g) \<longrightarrow>
        snd (SmartDrivers_SetOffTime driver n g) = g)
   \<and> (driver < numTmc2660Drivers g \<longrightarrow>
        fst (SmartDrivers_SetChopperControlRegister driver v g) =
          (v AND TMC_CHOPCONF_TOFF_MASK \<noteq> 0 \<and>
           \<not> (v AND TMC_CHOPCONF_TOFF_MASK = 1 \<and> v AND TMC_CHOPCONF_TBL_MASK = 0)))
   \<and> (\<not> fst (SmartDrivers_SetChopperControlRegister driver v g) \<longrightarrow>
        snd (SmartDrivers_SetChopperControlRegister driver v g) = g)"
proof (intro conjI impI)
  assume "driver < numTmc2660Drivers g"
  then show "fst (SmartDrivers_SetOffTime driver n g) =
        (1 \<le> n \<and> n \<le> 15 \<and>
         \<not> (n = 1 \<and> configuredChopConfReg (driverStates g driver) AND TMC_CHOPCONF_TBL_MASK = 0))"
    by (simp add: SmartDrivers_SetOffTime_def SetOffTime_accept)
next
  assume "\<not> fst (SmartDrivers_SetOffTime driver n g)"
  then show "snd (SmartDrivers_SetOffTime driver n g) = g"
    by (simp add: SmartDrivers_SetOffTime_def with_driver_def SetOffTime_reject split: if_splits)
next
  assume "driver < numTmc2660Drivers g"
  then show "fst (SmartDrivers_SetChopperControlRegister driver v g) =
          (v AND TMC_CHOPCONF_TOFF_MASK \<noteq> 0 \<and>
           \<not> (v AND TMC_CHOPCONF_TOFF_MASK = 1 \<and> v AND TMC_CHOPCONF_TBL_MASK = 0))"
    by (simp add: SmartDrivers_SetChopperControlRegister_def SetChopConf_accept)
next
  assume "\<not> fst (SmartDrivers_SetChopperControlRegister driver v g)"
  then show "snd (SmartDrivers_SetChopperControlRegister driver v g) = g"
    by (simp add: SmartDrivers_SetChopperControlRegister_def with_driver_def SetChopConf_reject
        split: if_splits)
qed

theorem C5_set_off_time_witness:
  "1 < numTmc2660Drivers example_sys
   \<and> fst (SmartDrivers_SetOffTime 1 4 example_sys)
   \<and> \<not> fst (SmartDrivers_SetOffTime 1 16 example_sys)
   \<and> snd (SmartDrivers_SetOffTime 1 16 example_sys) = example_sys
   \<and> \<not> fst (SmartDrivers_SetChopperControlRegister 1 0x10 example_sys)
   \<and> snd (SmartDrivers_SetChopperControlRegister 1 0x10 example_sys) = example_sys"
  using C5_set_off_time [where driver = 1 and g = example_sys and n = 4 and v = "0x10"]
    C5_set_off_time [where driver = 1 and g = example_sys and n = 16 and v = "0x10"]
  by (simp add: example_num example_driver_1_chop TMC_CHOPCONF_TOFF_MASK_def
      TMC_CHOPCONF_TBL_MASK_def)

text \<open>
  C6. For an in-range driver and a value \<open>v\<close> whose off-time field is not 0, and not 1
  while its blanking field is 0, \<open>SetChopperControlRegister\<close> accepts \<open>v\<close> and
  \<open>GetChopperControlRegister\<close> on the state it leaves returns \<open>v & 0x1FFFF\<close>.
\<close>

theorem C6_chopper_control_round_trip:
  assumes "driver < numTmc2660Drivers g"
    and "v AND TMC_CHOPCONF_TOFF_MASK \<noteq> 0"
    and "\<not> (v AND TMC_CHOPCONF_TOFF_MASK = 1 \<and> v AND TMC_CHOPCONF_TBL_MASK = 0)"
  shows "fst (SmartDrivers_SetChopperControlRegister driver v g)
    \<and> SmartDrivers_GetChopperControlRegister driver
         (snd (SmartDrivers_SetChopperControlRegister driver v g)) = v AND 0x1FFFF"
proof -
  have "fst (SetChopConf v (driverStates g driver))"
    using assms(2,3) by (simp add: SetChopConf_accept)
  then show ?thesis
    using assms(1)
    by (simp add: SmartDrivers_SetChopperControlRegister_def
        SmartDrivers_GetChopperControlRegister_def with_driver_def GetChopConf_SetChopConf)
qed

theorem C6_chopper_control_round_trip_witness:
  "1 < numTmc2660Drivers example_sys
   \<and> (0xABCDE175 :: u32) AND TMC_CHOPCONF_TOFF_MASK \<noteq> 0
   \<and> (0xABCDE175 :: u32) AND TMC_CHOPCONF_TOFF_MASK \<noteq> 1
   \<and> fst (SmartDrivers_SetChopperControlRegister 1 0xABCDE175 example_sys)
   \<and> SmartDrivers_GetChopperControlRegister 1
        (snd (SmartDrivers_SetChopperControlRegister 1 0xABCDE175 example_sys)) = 0x1E175"
proof -
  have h1: "1 < numTmc2660Drivers example_sys"
    by (simp add: example_num)
  have h2: "(0xABCDE175 :: u32) AND TMC_CHOPCONF_TOFF_MASK \<noteq> 0"
    by (simp add: TMC_CHOPCONF_TOFF_MASK_def)
  have h3: "(0xABCDE175 :: u32) AND TMC_CHOPCONF_TOFF_MASK \<noteq> 1"
    by (simp add: TMC_CHOPCONF_TOFF_MASK_def)
  from h3 have h3': "\<not> ((0xABCDE175 :: u32) AND TMC_CHOPCONF_TOFF_MASK = 1
      \<and> (0xABCDE175 :: u32) AND TMC_CHOPCONF_TBL_MASK = 0)"
    by simp
  show ?thesis
    using h1 h2 h3 C6_chopper_control_round_trip [OF h1 h2 h3'] by simp
qed

subsection \<open>Reading the status\<close>

lemma and_all_ones: "x AND (0xFFFFFFFF::u32) = x"
proof -
  have "(0xFFFFFFFF::u32) = - 1"
    by simp
  then show ?thesis
    by (simp only: and.right_neutral)
qed

lemma reported_sg: "x AND TMC_RR_REPORTED AND TMC_RR_SG = x AND TMC_RR_SG"
  by (simp add: tmc_consts and.assoc)

lemma cleared_sg: "x AND NOT TMC_RR_SG AND TMC_RR_REPORTED AND TMC_RR_SG = 0"
  by (simp add: tmc_consts and.assoc and.left_commute)

text \<open>
  C7 does not hold as stated: the value returned is not the accumulated status held
  before the call. In \<open>polled_example\<close> driver 0 is enabled and has accumulated
  \<open>0x401\<close> (the stall flag and bit 0 of the load); reading it, with every bit kept,
  returns 1.
\<close>

theorem C7_accumulated_status_counterexample:
  "fst (SmartDrivers_GetAccumulatedStatus 0 0xFFFFFFFF polled_example) = 1
   \<and> accumulatedStatus (driverStates polled_example 0) = 0x401"
  by (simp add: SmartDrivers_GetAccumulatedStatus_def polled_example_globals
      polled_example_driver_0 ReadAccumulatedStatus_def Let_def tmc_consts)

text \<open>
  C7, amended. For an in-range driver, \<open>GetAccumulatedStatus\<close> (one step, its body
  running with interrupts disabled) replaces \<open>accumulatedStatus\<close> by
  \<open>accumulatedStatus & bitsToKeep & mask\<close>, where \<open>mask\<close> is all ones if the driver is
  enabled and \<open>~TMC_RR_SG\<close> if it is not, and changes nothing else; it returns the value
  held before restricted to the seven reported flags (SG, OT, OTPW, S2G, OLA, OLB, STST)
  and to \<open>mask\<close>. So the accumulator keeps exactly the bits of \<open>bitsToKeep & mask\<close> that
  were set, and the load bits are never returned.
\<close>

theorem C7_accumulated_status:
  assumes "driver < numTmc2660Drivers g"
  shows "SmartDrivers_GetAccumulatedStatus driver bitsToKeep g =
     (let d = driverStates g driver;
          m = (if enabled d then 0xFFFFFFFF else NOT TMC_RR_SG)
      in (accumulatedStatus d AND TMC_RR_REPORTED AND m,
          g\<lparr>driverStates := (driverStates g)
               (driver := d\<lparr>accumulatedStatus := accumulatedStatus d AND bitsToKeep AND m\<rparr>)\<rparr>))"
  using assms
  by (simp add: SmartDrivers_GetAccumulatedStatus_def ReadAccumulatedStatus_def Let_def
      with_driver_def and.assoc and_all_ones)

theorem C7_accumulated_status_witness:
  "0 < numTmc2660Drivers polled_example
   \<and> fst (SmartDrivers_GetAccumulatedStatus 0 0x400 polled_example) = 1
   \<and> accumulatedStatus
        (driverStates (snd (SmartDrivers_GetAccumulatedStatus 0 0x400 polled_example)) 0) = 0x400"
  using C7_accumulated_status [of 0 polled_example "0x400"]
  by (simp add: polled_example_globals polled_example_driver_0 Let_def tmc_consts)

text \<open>
  C8 does not hold as stated: on a driver that is already enabled \<open>EnableDrive\<close> with
  \<open>true\<close> does nothing, and the live status still shows the stall flag of the last
  status read. Driver 0 of \<open>polled_example\<close> is such a driver.
\<close>

theorem C8_enable_live_status_counterexample:
  "SmartDrivers_GetLiveStatus 0 (SmartDrivers_EnableDrive 0 True polled_example) AND TMC_RR_SG = 1
   \<and> enabled (driverStates polled_example 0)"
  by (simp add: SmartDrivers_GetLiveStatus_def SmartDrivers_EnableDrive_def
      polled_example_globals polled_example_driver_0 Enable_def with_driver_def
      ReadLiveStatus_def Let_def tmc_consts)

text \<open>
  C8, amended. \<open>EnableDrive\<close> with \<open>true\<close> followed at once by \<open>GetLiveStatus\<close> yields
  a status with the stall flag 0 for every driver that was disabled before the call (and
  for every index out of range); for a driver that was already enabled the call changes
  nothing and the stall flag read is that of \<open>lastReadStatus\<close>.
\<close>

theorem C8_enable_live_status:
  "SmartDrivers_GetLiveStatus driver (SmartDrivers_EnableDrive driver True g) AND TMC_RR_SG =
     (if driver < numTmc2660Drivers g \<and> enabled (driverStates g driver)
      then lastReadStatus (driverStates g driver) AND TMC_RR_SG else 0)
   \<and> (enabled (driverStates g driver) \<longrightarrow> SmartDrivers_EnableDrive driver True g = g)"
  by (simp add: SmartDrivers_GetLiveStatus_def SmartDrivers_EnableDrive_def Enable_def
      with_driver_def ReadLiveStatus_def Let_def UpdateChopConfRegister_def and.assoc
      reported_sg cleared_sg)

theorem C8_enable_live_status_witness:
  "1 < numTmc2660Drivers example_sys
   \<and> \<not> enabled (driverStates example_sys 1)
   \<and> SmartDrivers_GetLiveStatus 1 (SmartDrivers_EnableDrive 1 True example_sys) AND TMC_RR_SG = 0
   \<and> enabled (driverStates polled_example 0)
   \<and> SmartDrivers_EnableDrive 0 True polled_example = polled_example"
  using C8_enable_live_status [of 1 example_sys] C8_enable_live_status [of 0 polled_example]
  by (simp add: example_num example_driver_1 polled_example_driver_0)

subsection \<open>Decoding the status when a transfer is done\<close>

text \<open>
  C1. When a transfer completes for a driver while the drivers are powered, the status is
  the received word, byte-swapped and shifted right by 12 (so at most 20 bits), and the
  step interval is fetched for the driver's axis. If the interval is 0 or greater than
  \<open>maxStallStepInterval\<close>, the stall bit is cleared from the status and the minimum and
  maximum load are left as they are; otherwise (so also at exactly
  \<open>maxStallStepInterval\<close>) the status is kept as received and the 10-bit load is folded
  into the minimum and the maximum. The result is stored in \<open>lastReadStatus\<close> and or-ed
  into \<open>accumulatedStatus\<close>.
\<close>

theorem C1_transfer_done:
  assumes "driversPowered g"
  shows "(let d = driverStates g i;
              status = drop_bit 12 (be32_to_cpu (spiDataIn g));
              interval = GetStepInterval (axisNumber d) (microstepShiftFactor d);
              sgLoad = drop_bit TMC_RR_SG_LOAD_SHIFT status AND 1023;
              d' = driverStates (TransferDone GetStepInterval i g) i
          in (interval = 0 \<or> interval > maxStallStepInterval d \<longrightarrow>
                lastReadStatus d' = status AND NOT TMC_RR_SG
                \<and> minSgLoadRegister d' = minSgLoadRegister d
                \<and> maxSgLoadRegister d' = maxSgLoadRegister d
                \<and> accumulatedStatus d' = accumulatedStatus d OR (status AND NOT TMC_RR_SG))
           \<and> (interval \<noteq> 0 \<and> interval \<le> maxStallStepInterval d \<longrightarrow>
                lastReadStatus d' = status
                \<and> minSgLoadRegister d' = min (minSgLoadRegister d) sgLoad
                \<and> maxSgLoadRegister d' = max (maxSgLoadRegister d) sgLoad
                \<and> accumulatedStatus d' = accumulatedStatus d OR status)
           \<and> status \<le> 0xFFFFF)"
proof -
  have "drop_bit 12 (x::u32) \<le> 0xFFFFF" for x
  proof -
    have "unat (drop_bit 12 x) = unat x div 2 ^ 12"
      by (simp add: drop_bit_eq_div unat_div)
    moreover have "unat x < 2 ^ 32"
      using unsigned_less [of x] by simp
    ultimately have "unat (drop_bit 12 x) < 2 ^ 20"
      by (simp add: less_mult_imp_div_less)
    then show ?thesis
      by (simp add: word_le_nat_alt)
  qed
  then show ?thesis
    using assms
    by (auto simp: TransferDone_def Let_def min_def max_def not_le not_less)
qed

theorem C1_transfer_done_witness:
  "driversPowered (powered_example\<lparr>spiDataIn := 0x00104000\<rparr>)
   \<and> maxStallStepInterval (driverStates powered_example 0) = 4687
   \<and> lastReadStatus (driverStates
        (TransferDone (\<lambda>axis shift. 4687) 0 (powered_example\<lparr>spiDataIn := 0x00104000\<rparr>)) 0) = 0x401
   \<and> minSgLoadRegister (driverStates
        (TransferDone (\<lambda>axis shift. 4687) 0 (powered_example\<lparr>spiDataIn := 0x00104000\<rparr>)) 0) = 1
   \<and> lastReadStatus (driverStates
        (TransferDone (\<lambda>axis shift. 4688) 0 (powered_example\<lparr>spiDataIn := 0x00104000\<rparr>)) 0) = 0x400
   \<and> minSgLoadRegister (driverStates
        (TransferDone (\<lambda>axis shift. 4688) 0 (powered_example\<lparr>spiDataIn := 0x00104000\<rparr>)) 0) = 1023"
  using
    C1_transfer_done [where g = "powered_example\<lparr>spiDataIn := 0x00104000\<rparr>" and i = 0
      and GetStepInterval = "\<lambda>axis shift. 4687"]
    C1_transfer_done [where g = "powered_example\<lparr>spiDataIn := 0x00104000\<rparr>" and i = 0
      and GetStepInterval = "\<lambda>axis shift. 4688"]
  by (simp add: Let_def powered_example_globals powered_example_driver_0
      enabled_example_driver_0 be32_to_cpu_def cpu_to_be32_def tmc_consts)

subsection \<open>Choosing the register to send\<close>

lemma bit_and_1: "bit (t::u32) 0 = (t AND 1 \<noteq> 0)"
  using bit_iff_and_push_bit_not_eq_0 [of t 0] by simp

lemma bit_and_2: "bit (t::u32) (Suc 0) = (t AND 2 \<noteq> 0)"
  using bit_iff_and_push_bit_not_eq_0 [of t 1] by simp

lemma bit_and_4: "bit (t::u32) 2 = (t AND 4 \<noteq> 0)"
  using bit_iff_and_push_bit_not_eq_0 [of t 2] by simp

lemma bit_and_8: "bit (t::u32) 3 = (t AND 8 \<noteq> 0)"
  using bit_iff_and_push_bit_not_eq_0 [of t 3] by simp

lemma StartTransfer_loop_0: "bit t 0 \<Longrightarrow> StartTransfer_loop t 0 1 = (0, 1)"
  by (simp add: StartTransfer_loop.simps [of t 0 1] bit_and_1)

lemma StartTransfer_loop_1:
  "\<not> bit t 0 \<Longrightarrow> bit t 1 \<Longrightarrow> StartTransfer_loop t 0 1 = (1, 2)"
  by (simp add: StartTransfer_loop.simps [of t 0 1] StartTransfer_loop.simps [of t "Suc 0" 2]
      bit_and_1 bit_and_2 NumRegisters_def)

lemma StartTransfer_loop_2:
  "\<not> bit t 0 \<Longrightarrow> \<not> bit t 1 \<Longrightarrow> bit t 2 \<Longrightarrow> StartTransfer_loop t 0 1 = (2, 4)"
  by (simp add: StartTransfer_loop.simps [of t 0 1] StartTransfer_loop.simps [of t "Suc 0" 2]
      StartTransfer_loop.simps [of t "Suc (Suc 0)" 4] bit_and_1 bit_and_2 bit_and_4
      NumRegisters_def)

lemma StartTransfer_loop_3:
  "\<not> bit t 0 \<Longrightarrow> \<not> bit t 1 \<Longrightarrow> \<not> bit t 2 \<Longrightarrow> bit t 3 \<Longrightarrow>
   StartTransfer_loop t 0 1 = (3, 8)"
  by (simp add: StartTransfer_loop.simps [of t 0 1] StartTransfer_loop.simps [of t "Suc 0" 2]
      StartTransfer_loop.simps [of t "Suc (Suc 0)" 4]
      StartTransfer_loop.simps [of t "Suc (Suc (Suc 0))" 8]
      bit_and_1 bit_and_2 bit_and_4 bit_and_8 NumRegisters_def)

lemma StartTransfer_loop_4:
  "\<not> bit t 0 \<Longrightarrow> \<not> bit t 1 \<Longrightarrow> \<not> bit t 2 \<Longrightarrow> \<not> bit t 3 \<Longrightarrow>
   StartTransfer_loop t 0 1 = (4, 16)"
  by (simp add: StartTransfer_loop.simps [of t 0 1] StartTransfer_loop.simps [of t "Suc 0" 2]
      StartTransfer_loop.simps [of t "Suc (Suc 0)" 4]
      StartTransfer_loop.simps [of t "Suc (Suc (Suc 0))" 8]
      bit_and_1 bit_and_2 bit_and_4 bit_and_8 NumRegisters_def)

lemma StartTransfer_loop_lowest:
  assumes "k < NumRegisters" and "k < NumRegisters - 1 \<longrightarrow> bit t k" and "\<forall>j<k. \<not> bit t j"
  shows "StartTransfer_loop t 0 1 = (k, push_bit k 1)"
proof -
  from assms(1) have "k = 0 \<or> k = 1 \<or> k = 2 \<or> k = 3 \<or> k = 4"
    by (auto simp: NumRegisters_def)
  then show ?thesis
    using assms(2,3)
    by (elim disjE)
      (simp_all add: StartTransfer_loop_0 StartTransfer_loop_1 StartTransfer_loop_2
        StartTransfer_loop_3 StartTransfer_loop_4 NumRegisters_def)
qed


lemma lowest_bit_exists:
  assumes "t \<noteq> 0" and "(t::u32) \<le> UpdateAllRegisters"
  shows "\<exists>k<NumRegisters. bit t k \<and> (\<forall>j<k. \<not> bit t j)"
proof -
  from assms(2) have "t < 2 ^ 5"
    by (simp add: UpdateAllRegisters_def NumRegisters_def word_le_nat_alt word_less_nat_alt)
  then have t5: "t AND mask 5 = t"
    by (rule less_mask_eq)
  from assms(1) obtain n where n: "bit t n"
    by (auto simp: bit_eq_iff)
  define k where "k = (LEAST n. bit t n)"
  have "bit t k"
    unfolding k_def using n by (rule LeastI)
  moreover have "\<forall>j<k. \<not> bit t j"
    unfolding k_def using not_less_Least by blast
  moreover have "bit (t AND mask 5) k"
    using \<open>bit t k\<close> t5 by simp
  then have "k < NumRegisters"
    by (simp add: bit_and_iff bit_mask_iff NumRegisters_def)
  ultimately show ?thesis
    by blast
qed

text \<open>
  C3. \<open>StartTransfer\<close> hands to the PDC the register (shifted and byte-swapped for the
  wire) whose bit is the lowest one set in \<open>registersToUpdate\<close>, among the registers 0
  to 4, and clears exactly that bit; when \<open>registersToUpdate\<close> is zero it sends register
  4 (\<open>SmartEnable\<close>) and the bitmap stays zero. A bitmap that is not zero and has no bit
  beyond \<open>UpdateAllRegisters\<close> always has such a lowest bit. The registers themselves
  are not changed, and \<open>currentDriver\<close> becomes the driver.
\<close>

theorem C3_start_transfer:
  "(let d = driverStates g i;
        g' = StartTransfer i g;
        d' = driverStates g' i
    in (registersToUpdate d = 0 \<longrightarrow>
          spiDataOut g' = cpu_to_be32 (push_bit 8 (registers d SmartEnable))
          \<and> registersToUpdate d' = 0)
     \<and> (\<forall>k<NumRegisters.
          bit (registersToUpdate d) k \<and> (\<forall>j<k. \<not> bit (registersToUpdate d) j) \<longrightarrow>
            spiDataOut g' = cpu_to_be32 (push_bit 8 (registers d k))
            \<and> registersToUpdate d' = registersToUpdate d AND NOT (push_bit k 1))
     \<and> (registersToUpdate d \<noteq> 0 \<and> registersToUpdate d \<le> UpdateAllRegisters \<longrightarrow>
          (\<exists>k<NumRegisters. bit (registersToUpdate d) k \<and> (\<forall>j<k. \<not> bit (registersToUpdate d) j)))
     \<and> registers d' = registers d
     \<and> currentDriver g' = Some i)"
proof -
  define d where "d = driverStates g i"
  have zero: "registersToUpdate d = 0 \<Longrightarrow>
      spiDataOut (StartTransfer i g) = cpu_to_be32 (push_bit 8 (registers d SmartEnable))
      \<and> registersToUpdate (driverStates (StartTransfer i g) i) = 0"
    by (simp add: StartTransfer_def d_def Let_def)
  have lowest: "spiDataOut (StartTransfer i g) = cpu_to_be32 (push_bit 8 (registers d k))
      \<and> registersToUpdate (driverStates (StartTransfer i g) i)
          = registersToUpdate d AND NOT (push_bit k 1)"
    if "k < NumRegisters" "bit (registersToUpdate d) k" "\<forall>j<k. \<not> bit (registersToUpdate d) j" for k
  proof -
    have "StartTransfer_loop (registersToUpdate d) 0 1 = (k, push_bit k 1)"
      using that by (intro StartTransfer_loop_lowest) simp_all
    moreover have "registersToUpdate d \<noteq> 0"
      using that(2) by auto
    ultimately show ?thesis
      by (simp add: StartTransfer_def d_def Let_def)
  qed
  have regs: "registers (driverStates (StartTransfer i g) i) = registers d"
    by (simp add: StartTransfer_def d_def Let_def split_def)
  have cur: "currentDriver (StartTransfer i g) = Some i"
    by (simp add: StartTransfer_def Let_def split_def)
  show ?thesis
    using zero lowest regs cur lowest_bit_exists [of "registersToUpdate d"]
    unfolding Let_def d_def by blast
qed

theorem C3_start_transfer_witness:
  "registersToUpdate (driverStates polled_example 0) = 30
   \<and> spiDataOut (StartTransfer 0 polled_example) = cpu_to_be32 (push_bit 8 0xC0100)
   \<and> registersToUpdate (driverStates (StartTransfer 0 polled_example) 0) = 28
   \<and> registersToUpdate (driverStates initial_sys 0) = 0
   \<and> spiDataOut (StartTransfer 0 initial_sys) = 0
   \<and> registersToUpdate (driverStates (StartTransfer 0 initial_sys) 0) = 0"
proof -
  have low: "bit (registersToUpdate (driverStates polled_example 0)) 1
      \<and> (\<forall>j<1. \<not> bit (registersToUpdate (driverStates polled_example 0)) j)"
    by (simp add: polled_example_driver_0 bit_and_1 bit_and_2)
  have "(1::nat) < NumRegisters"
    by (simp add: NumRegisters_def)
  from C3_start_transfer [where g = polled_example and i = 0, unfolded Let_def,
      THEN conjunct2, THEN conjunct1, rule_format, OF this low]
  have "spiDataOut (StartTransfer 0 polled_example) = cpu_to_be32 (push_bit 8 0xC0100)
      \<and> registersToUpdate (driverStates (StartTransfer 0 polled_example) 0) = 28"
    by (simp add: polled_example_driver_0)
  moreover from C3_start_transfer [where g = initial_sys and i = 0, unfolded Let_def,
      THEN conjunct1]
  have "spiDataOut (StartTransfer 0 initial_sys) = 0
      \<and> registersToUpdate (driverStates (StartTransfer 0 initial_sys) 0) = 0"
    by (simp add: initial_sys_def initial_driver_def cpu_to_be32_def)
  ultimately show ?thesis
    by (simp add: polled_example_driver_0 initial_sys_def initial_driver_def)
qed

subsection \<open>The stall threshold\<close>

















subsection \<open>Microstepping\<close>

lemma SetMicrostepping_loop_odd:
  "uSteps AND 1 \<noteq> 0 \<Longrightarrow> SetMicrostepping_loop uSteps shift = Some (uSteps, shift)"
  by (subst SetMicrostepping_loop.simps) simp

lemma SetMicrostepping_loop_even:
  "uSteps AND 1 = 0 \<Longrightarrow>
   SetMicrostepping_loop uSteps shift = SetMicrostepping_loop (drop_bit 1 uSteps) (shift + 1)"
  by (subst SetMicrostepping_loop.simps) simp

lemma and_1_eq_0_iff: "(w::u32) AND 1 = 0 \<longleftrightarrow> \<not> bit w 0"
  using bit_iff_and_push_bit_not_eq_0 [of w 0] by simp

lemma even_word_split: "\<not> bit (w::u32) 0 \<Longrightarrow> w = push_bit 1 (drop_bit 1 w)"
proof -
  assume "\<not> bit w 0"
  then have "w mod 2 = 0"
    by (simp add: bit_0 even_iff_mod_2_eq_zero)
  then show ?thesis
    using div_mult_mod_eq [of w 2] by (simp add: push_bit_eq_mult drop_bit_eq_div)
qed

lemma SetMicrostepping_loop_power:
  "k < 32 \<Longrightarrow> SetMicrostepping_loop (push_bit k 1) shift = Some (1, shift + of_nat k)"
proof (induction k arbitrary: shift)
  case 0
  show ?case
    by (simp add: SetMicrostepping_loop_odd)
next
  case (Suc k)
  have "\<not> bit (push_bit (Suc k) 1 :: u32) 0"
    by (simp add: bit_simps)
  then have "SetMicrostepping_loop (push_bit (Suc k) 1) shift
      = SetMicrostepping_loop (drop_bit 1 (push_bit (Suc k) 1 :: u32)) (shift + 1)"
    by (intro SetMicrostepping_loop_even) (simp add: and_1_eq_0_iff)
  also have "drop_bit 1 (push_bit (Suc k) 1 :: u32) = push_bit k 1"
    using Suc.prems by (intro bit_eqI) (auto simp: bit_simps)
  also have "SetMicrostepping_loop (push_bit k 1) (shift + 1) = Some (1, shift + 1 + of_nat k)"
    using Suc.prems by (intro Suc.IH) simp
  finally show ?case
    by (simp add: add.assoc)
qed

lemma SetMicrostepping_loop_total:
  "m \<noteq> 0 \<Longrightarrow>
   \<exists>u k. SetMicrostepping_loop m shift = Some (u, shift + of_nat k)
     \<and> k < 32 \<and> m = push_bit k u \<and> bit u 0"
proof (induction "unat m" arbitrary: m shift rule: less_induct)
  case less
  show ?case
  proof (cases "bit m 0")
    case True
    then have "SetMicrostepping_loop m shift = Some (m, shift + of_nat 0)"
      by (simp add: SetMicrostepping_loop_odd and_1_eq_0_iff)
    with True show ?thesis
      by (intro exI [of _ m] exI [of _ 0]) simp
  next
    case False
    define m' where "m' = drop_bit 1 m"
    have split: "m = push_bit 1 m'"
      unfolding m'_def using False by (rule even_word_split)
    with less.prems have nz: "m' \<noteq> 0"
      by auto
    have "unat m' = unat m div 2"
      by (simp add: m'_def drop_bit_eq_div unat_div)
    moreover have "unat m \<noteq> 0"
      using less.prems by (simp add: unat_eq_0)
    ultimately have "unat m' < unat m"
      by simp
    from less.hyps [OF this nz, of "shift + 1"]
    obtain u k where r: "SetMicrostepping_loop m' (shift + 1) = Some (u, shift + 1 + of_nat k)"
      and k: "k < 32" and m': "m' = push_bit k u" and u: "bit u 0"
      by blast
    have m: "m = push_bit (Suc k) u"
      using split m' by (simp add: push_bit_double)
    have "Suc k < 32"
    proof (rule ccontr)
      assume "\<not> Suc k < 32"
      then have "push_bit (Suc k) u = 0"
        by (intro push_bit_word_beyond) simp
      with m less.prems show False
        by simp
    qed
    moreover have "SetMicrostepping_loop m shift = Some (u, shift + of_nat (Suc k))"
      using False r by (simp add: SetMicrostepping_loop_even and_1_eq_0_iff m'_def add.assoc)
    ultimately show ?thesis
      using m u by blast
  qed
qed


lemma power_in_set:
  "k \<le> 8 \<Longrightarrow> (push_bit k 1 :: u32) \<in> {1, 2, 4, 8, 16, 32, 64, 128, 256}"
proof -
  assume "k \<le> 8"
  then have "k = 0 \<or> k = 1 \<or> k = 2 \<or> k = 3 \<or> k = 4 \<or> k = 5 \<or> k = 6 \<or> k = 7 \<or> k = 8"
    by auto
  then show ?thesis
    by (elim disjE) simp_all
qed

lemma set_cases:
  assumes "(m::u32) \<in> {1, 2, 4, 8, 16, 32, 64, 128, 256}"
    and "\<And>k. k \<le> 8 \<Longrightarrow> P (push_bit k 1)"
  shows "P m"
proof -
  from assms(1) consider "m = push_bit 0 1" | "m = push_bit 1 1" | "m = push_bit 2 1"
    | "m = push_bit 3 1" | "m = push_bit 4 1" | "m = push_bit 5 1" | "m = push_bit 6 1"
    | "m = push_bit 7 1" | "m = push_bit 8 1"
    by auto
  then show ?thesis
    by cases (hypsubst, rule assms(2), simp)+
qed


lemma unat_shift: "k < 32 \<Longrightarrow> unat (of_nat k :: u32) = k"
  by (simp add: unat_of_nat)

lemma shift_le_8: "k < 32 \<Longrightarrow> ((of_nat k :: u32) \<le> 8) = (k \<le> 8)"
  by (simp add: word_le_nat_alt unat_shift)

lemma mres_field:
  "((if interpolate
     then ((r AND NOT TMC_DRVCTRL_MRES_MASK)
             OR (push_bit TMC_DRVCTRL_MRES_SHIFT v AND TMC_DRVCTRL_MRES_MASK)) OR TMC_DRVCTRL_INTPOL
     else ((r AND NOT TMC_DRVCTRL_MRES_MASK)
             OR (push_bit TMC_DRVCTRL_MRES_SHIFT v AND TMC_DRVCTRL_MRES_MASK))
            AND NOT TMC_DRVCTRL_INTPOL)
    AND TMC_DRVCTRL_MRES_MASK) = v AND TMC_DRVCTRL_MRES_MASK"
  by (simp add: TMC_DRVCTRL_MRES_MASK_def TMC_DRVCTRL_MRES_SHIFT_def TMC_DRVCTRL_INTPOL_def
      bit.conj_disj_distrib2 and.assoc)

lemma intpol_field:
  "((if interpolate
     then ((r AND NOT TMC_DRVCTRL_MRES_MASK)
             OR (push_bit TMC_DRVCTRL_MRES_SHIFT v AND TMC_DRVCTRL_MRES_MASK)) OR TMC_DRVCTRL_INTPOL
     else ((r AND NOT TMC_DRVCTRL_MRES_MASK)
             OR (push_bit TMC_DRVCTRL_MRES_SHIFT v AND TMC_DRVCTRL_MRES_MASK))
            AND NOT TMC_DRVCTRL_INTPOL)
    AND TMC_DRVCTRL_INTPOL \<noteq> 0) = interpolate"
  by (simp add: TMC_DRVCTRL_MRES_MASK_def TMC_DRVCTRL_MRES_SHIFT_def TMC_DRVCTRL_INTPOL_def
      bit.conj_disj_distrib2 and.assoc)

lemma mres_value: "k \<le> 8 \<Longrightarrow> (8 - of_nat k :: u32) AND TMC_DRVCTRL_MRES_MASK = 8 - of_nat k"
proof -
  assume "k \<le> 8"
  then have "k = 0 \<or> k = 1 \<or> k = 2 \<or> k = 3 \<or> k = 4 \<or> k = 5 \<or> k = 6 \<or> k = 7 \<or> k = 8"
    by auto
  then show ?thesis
    by (elim disjE) (simp_all add: TMC_DRVCTRL_MRES_MASK_def)
qed

lemma SetMicrostepping_fields:
  "microstepShiftFactor (snd (SetMicrostepping shift interpolate d)) = shift"
  "registers (snd (SetMicrostepping shift interpolate d)) DriveControl AND TMC_DRVCTRL_MRES_MASK
     = (8 - shift) AND TMC_DRVCTRL_MRES_MASK"
  "(registers (snd (SetMicrostepping shift interpolate d)) DriveControl AND TMC_DRVCTRL_INTPOL \<noteq> 0)
     = interpolate"
  by (simp_all add: SetMicrostepping_def Let_def mres_field intpol_field
      del: push_bit_and)

lemma accept_power:
  assumes "driver < numTmc2660Drivers g" and "k \<le> 8"
  shows "SmartDrivers_SetMicrostepping driver (push_bit k 1) interpolate g =
     Some (True, with_driver driver (\<lambda>d. snd (SetMicrostepping (of_nat k) interpolate d)) g)"
proof -
  have "(push_bit k 1 :: u32) \<noteq> 0"
    using assms(2) power_in_set [of k] by auto
  then have "(0::u32) < push_bit k 1"
    by (simp add: word_greater_zero_iff)
  moreover have "SetMicrostepping_loop (push_bit k 1) 0 = Some (1, of_nat k)"
    using assms(2) SetMicrostepping_loop_power [of k 0] by simp
  moreover have "(of_nat k :: u32) \<le> 8"
    using assms(2) by (simp add: shift_le_8)
  ultimately show ?thesis
    using assms(1) by (simp add: SmartDrivers_SetMicrostepping_def)
qed

lemma reject_other:
  assumes "m \<notin> {1, 2, 4, 8, 16, 32, 64, 128, 256}"
  shows "SmartDrivers_SetMicrostepping driver m interpolate g = Some (False, g)"
proof (cases "driver < numTmc2660Drivers g \<and> m > 0")
  case False
  then show ?thesis
    by (auto simp: SmartDrivers_SetMicrostepping_def)
next
  case True
  then have "m \<noteq> 0"
    by auto
  from SetMicrostepping_loop_total [OF this, of 0]
  obtain u k where r: "SetMicrostepping_loop m 0 = Some (u, of_nat k)"
    and k: "k < 32" and m: "m = push_bit k u"
    by auto
  have "\<not> (u = 1 \<and> (of_nat k :: u32) \<le> 8)"
    using assms m k power_in_set [of k] by (auto simp: shift_le_8)
  with r show ?thesis
    by (auto simp: SmartDrivers_SetMicrostepping_def)
qed

text \<open>
  C4. For an in-range driver and every \<open>m\<close> among 1, 2, 4, ..., 256,
  \<open>SmartDrivers::SetMicrostepping\<close> returns (its loop ends) with true; the shift it
  stores is at most 8 and \<open>1 << shift = m\<close>, the MRES field of register 0 is
  \<open>8 - shift\<close>, the INTPOL bit is set exactly when interpolation was asked for, and
  \<open>GetMicrostepping\<close> on the new state returns \<open>m\<close> and the interpolation asked for.
  For every other \<open>m\<close> it returns false and the state is as it was.
\<close>

theorem C4_set_microstepping:
  assumes "driver < numTmc2660Drivers g"
  shows "(m \<in> {1, 2, 4, 8, 16, 32, 64, 128, 256} \<longrightarrow>
           (case SmartDrivers_SetMicrostepping driver m interpolate g of
              None \<Rightarrow> False
            | Some (ok, g') \<Rightarrow>
                ok
                \<and> microstepShiftFactor (driverStates g' driver) \<le> 8
                \<and> push_bit (unat (microstepShiftFactor (driverStates g' driver))) 1 = m
                \<and> registers (driverStates g' driver) DriveControl AND TMC_DRVCTRL_MRES_MASK
                    = 8 - microstepShiftFactor (driverStates g' driver)
                \<and> (registers (driverStates g' driver) DriveControl AND TMC_DRVCTRL_INTPOL \<noteq> 0)
                    = interpolate
                \<and> SmartDrivers_GetMicrostepping driver g' = (m, interpolate)))
       \<and> (m \<notin> {1, 2, 4, 8, 16, 32, 64, 128, 256} \<longrightarrow>
            SmartDrivers_SetMicrostepping driver m interpolate g = Some (False, g))"
proof (intro conjI impI)
  assume "m \<in> {1, 2, 4, 8, 16, 32, 64, 128, 256}"
  then show "case SmartDrivers_SetMicrostepping driver m interpolate g of
              None \<Rightarrow> False
            | Some (ok, g') \<Rightarrow>
                ok
                \<and> microstepShiftFactor (driverStates g' driver) \<le> 8
                \<and> push_bit (unat (microstepShiftFactor (driverStates g' driver))) 1 = m
                \<and> registers (driverStates g' driver) DriveControl AND TMC_DRVCTRL_MRES_MASK
                    = 8 - microstepShiftFactor (driverStates g' driver)
                \<and> (registers (driverStates g' driver) DriveControl AND TMC_DRVCTRL_INTPOL \<noteq> 0)
                    = interpolate
                \<and> SmartDrivers_GetMicrostepping driver g' = (m, interpolate)"
  proof (rule set_cases)
    fix k :: nat
    assume k: "k \<le> 8"
    then have "k < 32"
      by simp
    then show "case SmartDrivers_SetMicrostepping driver (push_bit k 1) interpolate g of
              None \<Rightarrow> False
            | Some (ok, g') \<Rightarrow>
                ok
                \<and> microstepShiftFactor (driverStates g' driver) \<le> 8
                \<and> push_bit (unat (microstepShiftFactor (driverStates g' driver))) 1 = push_bit k 1
                \<and> registers (driverStates g' driver) DriveControl AND TMC_DRVCTRL_MRES_MASK
                    = 8 - microstepShiftFactor (driverStates g' driver)
                \<and> (registers (driverStates g' driver) DriveControl AND TMC_DRVCTRL_INTPOL \<noteq> 0)
                    = interpolate
                \<and> SmartDrivers_GetMicrostepping driver g' = (push_bit k 1, interpolate)"
      using assms k
      by (simp add: accept_power [unfolded push_bit_of_1] with_driver_def
          SetMicrostepping_fields mres_value
          shift_le_8 unat_shift SmartDrivers_GetMicrostepping_def GetMicrostepping_def)
  qed
next
  assume "m \<notin> {1, 2, 4, 8, 16, 32, 64, 128, 256}"
  then show "SmartDrivers_SetMicrostepping driver m interpolate g = Some (False, g)"
    by (rule reject_other)
qed

theorem C4_set_microstepping_witness:
  "1 < numTmc2660Drivers example_sys
   \<and> (case SmartDrivers_SetMicrostepping 1 32 False example_sys of
         None \<Rightarrow> False
       | Some (ok, g') \<Rightarrow>
           ok \<and> registers (driverStates g' 1) DriveControl AND TMC_DRVCTRL_MRES_MASK
                  = 8 - microstepShiftFactor (driverStates g' 1)
           \<and> SmartDrivers_GetMicrostepping 1 g' = (32, False))
   \<and> SmartDrivers_SetMicrostepping 1 0 True example_sys = Some (False, example_sys)
   \<and> SmartDrivers_SetMicrostepping 1 48 True example_sys = Some (False, example_sys)
   \<and> SmartDrivers_SetMicrostepping 1 512 True example_sys = Some (False, example_sys)"
proof -
  have n: "1 < numTmc2660Drivers example_sys"
    by (simp add: example_num)
  show ?thesis
    using n C4_set_microstepping [OF n, where m = 32 and interpolate = False]
      C4_set_microstepping [OF n, where m = 0 and interpolate = True]
      C4_set_microstepping [OF n, where m = 48 and interpolate = True]
      C4_set_microstepping [OF n, where m = 512 and interpolate = True]
    by (auto split: option.splits)
qed

subsection \<open>The off-time field and the enabled flag\<close>

lemma chop_inv_fields: "chop_fields d' = chop_fields d \<Longrightarrow> chop_inv d' = chop_inv d"
  by (simp add: chop_fields_def chop_inv_def)

lemma toff_cleared: "(c AND NOT TMC_CHOPCONF_TOFF_MASK) AND TMC_CHOPCONF_TOFF_MASK = 0"
  by (simp add: TMC_CHOPCONF_TOFF_MASK_def and.assoc)

lemma UpdateChopConfRegister_inv:
  "configuredChopConfReg d AND TMC_CHOPCONF_TOFF_MASK \<noteq> 0 \<Longrightarrow> chop_inv (UpdateChopConfRegister d)"
  by (simp add: chop_inv_def UpdateChopConfRegister_def toff_cleared)

lemma toff_stored:
  "((v AND 0x0001FFFF) OR TMC_REG_CHOPCONF) AND TMC_CHOPCONF_TOFF_MASK = v AND TMC_CHOPCONF_TOFF_MASK"
  by (simp add: TMC_REG_CHOPCONF_def TMC_CHOPCONF_TOFF_MASK_def bit.conj_disj_distrib2 and.assoc)

lemma SetChopConf_inv: "chop_inv d \<Longrightarrow> chop_inv (snd (SetChopConf v d))"
  by (auto simp: SetChopConf_def Let_def TMC_CHOPCONF_TOFF_SHIFT_def toff_stored
      intro!: UpdateChopConfRegister_inv)

lemma SetOffTime_inv: "chop_inv d \<Longrightarrow> chop_inv (snd (SetOffTime n d))"
  by (simp add: SetOffTime_def SetChopConf_inv)

lemma SetDriverMode_inv: "chop_inv d \<Longrightarrow> chop_inv (snd (SetDriverMode mode d))"
  by (cases mode) (simp_all add: SetChopConf_inv)

lemma Enable_inv: "chop_inv d \<Longrightarrow> chop_inv (Enable en d)"
  by (auto simp: Enable_def Let_def chop_inv_def intro!: UpdateChopConfRegister_inv [unfolded chop_inv_def])

lemma other_fields:
  "chop_fields (SetAxisNumber a d) = chop_fields d"
  "chop_fields (WriteAll d) = chop_fields d"
  "chop_fields (SetCurrent c d) = chop_fields d"
  "chop_fields (snd (ReadAccumulatedStatus k d)) = chop_fields d"
  "chop_fields (snd (SetMicrostepping s ip d)) = chop_fields d"
  "chop_fields (SetStallDetectThreshold t d) = chop_fields d"
  "chop_fields (SetStallDetectFilter f d) = chop_fields d"
  "chop_fields (SetStallMinimumStepsPerSecond scr sps d) = chop_fields d"
  "chop_fields (SetCoolStep cs d) = chop_fields d"
  "chop_fields (snd (AppendDriverStatus reply d)) = chop_fields d"
  by (simp_all add: chop_fields_def SetAxisNumber_def WriteAll_def SetCurrent_def
      ReadAccumulatedStatus_def SetMicrostepping_def SetStallDetectThreshold_def
      SetStallDetectFilter_def SetStallMinimumStepsPerSecond_def SetCoolStep_def
      AppendDriverStatus_def ResetLoadRegisters_def Let_def
      ChopperControl_def StallGuardConfig_def DriveControl_def SmartEnable_def)

lemmas other_inv = other_fields [THEN chop_inv_fields]

lemma with_driver_inv:
  assumes "\<And>d. chop_inv d \<Longrightarrow> chop_inv (f d)" and "chop_inv (driverStates g i)"
  shows "chop_inv (driverStates (with_driver j f g) i)"
  using assms by (auto simp: with_driver_def)

lemma with_driver_num [simp]: "numTmc2660Drivers (with_driver j f g) = numTmc2660Drivers g"
  by (simp add: with_driver_def)


lemma TransferDone_fields:
  "chop_fields (driverStates (TransferDone gsi j g) i) = chop_fields (driverStates g i)"
  by (simp add: TransferDone_def Let_def split_def chop_fields_def)

lemma TransferDone_num [simp]:
  "numTmc2660Drivers (TransferDone gsi j g) = numTmc2660Drivers g"
  by (simp add: TransferDone_def Let_def split_def)

lemma StartTransfer_fields:
  "chop_fields (driverStates (StartTransfer j g) i) = chop_fields (driverStates g i)"
  by (simp add: StartTransfer_def Let_def split_def chop_fields_def)

lemma StartTransfer_num [simp]:
  "numTmc2660Drivers (StartTransfer j g) = numTmc2660Drivers g"
  by (simp add: StartTransfer_def Let_def split_def)

lemma Handler_fields:
  "chop_fields (driverStates (TMC2660_SPI_Handler gsi g) i) = chop_fields (driverStates g i)"
  by (simp add: TMC2660_SPI_Handler_def Let_def StartTransfer_fields TransferDone_fields
      split: option.splits)

lemma Handler_num [simp]:
  "numTmc2660Drivers (TMC2660_SPI_Handler gsi g) = numTmc2660Drivers g"
  by (simp add: TMC2660_SPI_Handler_def Let_def split: option.splits)

lemma WriteAll_fold_fields:
  "chop_fields (driverStates (fold (\<lambda>driver. with_driver driver WriteAll) xs g) i)
     = chop_fields (driverStates g i)"
  by (induction xs arbitrary: g) (simp_all add: with_driver_def other_fields)

lemma WriteAll_fold_num [simp]:
  "numTmc2660Drivers (fold (\<lambda>driver. with_driver driver WriteAll) xs g) = numTmc2660Drivers g"
  by (induction xs arbitrary: g) simp_all

lemma Spin_fields:
  "chop_fields (driverStates (Spin powered g) i) = chop_fields (driverStates g i)"
  by (simp add: Spin_def Let_def StartTransfer_fields WriteAll_fold_fields)

lemma Spin_num [simp]: "numTmc2660Drivers (Spin powered g) = numTmc2660Drivers g"
  by (simp add: Spin_def Let_def)

lemma Init_other:
  "i \<noteq> j \<Longrightarrow> driverStates (Init scr a p j g) i = driverStates g i"
  by (simp add: Init_def Let_def)

lemma Init_num [simp]: "numTmc2660Drivers (Init scr a p j g) = numTmc2660Drivers g"
  by (simp add: Init_def Let_def)

lemma Init_establishes:
  "chop_inv (driverStates (Init scr a p j g) j)"
  "\<not> enabled (driverStates (Init scr a p j g) j)"
  "registers (driverStates (Init scr a p j g) j) ChopperControl AND TMC_CHOPCONF_TOFF_MASK = 0"
  by (simp_all add: Init_def Let_def chop_inv_def ResetLoadRegisters_def SetMicrostepping_def
      SetStallDetectThreshold_def SetStallDetectFilter_def SetStallMinimumStepsPerSecond_def
      tmc_consts)

lemma Init_fold:
  "i < n \<Longrightarrow>
   chop_inv (driverStates (fold (\<lambda>driver. Init scr (of_nat driver) (pins driver) driver) [0..<n] g) i)
   \<and> \<not> enabled (driverStates (fold (\<lambda>driver. Init scr (of_nat driver) (pins driver) driver) [0..<n] g) i)"
proof (induction n)
  case 0
  then show ?case by simp
next
  case (Suc n)
  show ?case
  proof (cases "i = n")
    case True
    then show ?thesis
      by (simp add: Init_establishes)
  next
    case False
    with Suc show ?thesis
      by (simp add: Init_other)
  qed
qed

lemma Init_fold_num [simp]:
  "numTmc2660Drivers (fold (\<lambda>driver. Init scr (of_nat driver) (pins driver) driver) xs g)
     = numTmc2660Drivers g"
  by (induction xs arbitrary: g) simp_all

lemma SmartDrivers_Init_establishes:
  assumes "i < numTmc2660Drivers (SmartDrivers_Init scr maxd pins n g)"
  shows "chop_inv (driverStates (SmartDrivers_Init scr maxd pins n g) i)
    \<and> \<not> enabled (driverStates (SmartDrivers_Init scr maxd pins n g) i)"
  using assms by (simp add: SmartDrivers_Init_def Let_def Init_fold)

lemma reachable_chop_inv:
  "reachable scr maxd g \<Longrightarrow> \<forall>i<numTmc2660Drivers g. chop_inv (driverStates g i)"
proof (induction rule: reachable.induct)
  case (reach_Init g0 driverSelectPins numTmcDrivers)
  show ?case
    by (simp add: SmartDrivers_Init_establishes)
next
  case (reach_SetMicrostepping g driver microsteps interpolate ok g')
  then show ?case
    by (auto simp: SmartDrivers_SetMicrostepping_def other_inv
        split: if_splits option.splits prod.splits intro!: with_driver_inv)
next
  case (reach_SPI_Handler g GetStepInterval)
  then show ?case
    by (simp add: Handler_fields [THEN chop_inv_fields])
next
  case (reach_Spin g powered)
  then show ?case
    by (simp add: Spin_fields [THEN chop_inv_fields])
next
  case (reach_receive g received)
  then show ?case
    by simp
next
  case (reach_TurnDriversOff g)
  then show ?case
    by (simp add: TurnDriversOff_def)
qed (auto simp: SmartDrivers_SetAxisNumber_def SmartDrivers_SetCurrent_def
      SmartDrivers_EnableDrive_def SmartDrivers_GetAccumulatedStatus_def
      SmartDrivers_SetDriverMode_def SmartDrivers_SetChopperControlRegister_def
      SmartDrivers_SetOffTime_def SmartDrivers_SetStallThreshold_def
      SmartDrivers_SetStallFilter_def SmartDrivers_SetStallMinimumStepsPerSecond_def
      SmartDrivers_SetCoolStep_def SmartDrivers_AppendDriverStatus_def other_inv
      SetChopConf_inv SetOffTime_inv SetDriverMode_inv Enable_inv intro!: with_driver_inv)

text \<open>
  C2. In every state reached from \<open>SmartDrivers::Init\<close> by the functions of the
  interface and the interrupt handler, and for every driver in range, the off-time field
  of register 2 is zero if and only if the driver is not enabled. \<open>Init\<close> establishes
  the invariant \<open>chop_inv\<close> with every driver disabled, and \<open>SetChopConf\<close>,
  \<open>SetOffTime\<close>, \<open>SetDriverMode\<close> and \<open>Enable\<close> preserve it: a configured chopper
  value is only ever accepted with an off-time, and register 2 is always derived from it
  through the enabled flag.
\<close>

theorem C2_off_time_iff_disabled:
  "(reachable StepClockRate MaxSmartDrivers g \<longrightarrow>
      (\<forall>i<numTmc2660Drivers g.
         (registers (driverStates g i) ChopperControl AND TMC_CHOPCONF_TOFF_MASK = 0)
           = (\<not> enabled (driverStates g i))))
   \<and> (driver < numTmc2660Drivers
          (SmartDrivers_Init StepClockRate MaxSmartDrivers driverSelectPins numTmcDrivers g0) \<longrightarrow>
        chop_inv (driverStates
          (SmartDrivers_Init StepClockRate MaxSmartDrivers driverSelectPins numTmcDrivers g0) driver)
        \<and> \<not> enabled (driverStates
          (SmartDrivers_Init StepClockRate MaxSmartDrivers driverSelectPins numTmcDrivers g0) driver))
   \<and> (chop_inv d \<longrightarrow>
        chop_inv (snd (SetChopConf newVal d)) \<and> chop_inv (snd (SetOffTime offTime d))
        \<and> chop_inv (snd (SetDriverMode mode d)) \<and> chop_inv (Enable en d))"
  using reachable_chop_inv [of StepClockRate MaxSmartDrivers g]
  by (simp add: SmartDrivers_Init_establishes SetChopConf_inv SetOffTime_inv SetDriverMode_inv
      Enable_inv) (simp add: chop_inv_def)

theorem C2_off_time_iff_disabled_witness:
  "reachable 937500 10 polled_example
   \<and> 1 < numTmc2660Drivers polled_example
   \<and> enabled (driverStates polled_example 0)
   \<and> registers (driverStates polled_example 0) ChopperControl AND TMC_CHOPCONF_TOFF_MASK \<noteq> 0
   \<and> chop_inv (driverStates polled_example 0)
   \<and> chop_inv (Enable False (driverStates polled_example 0))"
proof -
  note inst = C2_off_time_iff_disabled [where g = polled_example and StepClockRate = 937500
      and MaxSmartDrivers = 10 and d = "driverStates polled_example 0" and en = False]
  have inv: "chop_inv (driverStates polled_example 0)"
    by (simp add: chop_inv_def polled_example_driver_0 tmc_consts)
  from inst [THEN conjunct1, rule_format, OF polled_example_reachable, of 0]
  have "registers (driverStates polled_example 0) ChopperControl AND TMC_CHOPCONF_TOFF_MASK \<noteq> 0"
    by (simp add: polled_example_globals polled_example_driver_0)
  moreover from inst [THEN conjunct2, THEN conjunct2, rule_format, OF inv]
  have "chop_inv (Enable False (driverStates polled_example 0))"
    by simp
  ultimately show ?thesis
    using inv by (simp add: polled_example_reachable polled_example_globals polled_example_driver_0)
qed

subsection \<open>The bitmap of registers to update\<close>

text \<open>
  In every state reached from \<open>SmartDrivers::Init\<close> the bitmap of an in-range driver is
  at most \<open>UpdateAllRegisters\<close>, so that, whenever it is not zero, one of the five
  registers is the lowest one to update.
\<close>

lemma UpdateAllRegisters_31: "UpdateAllRegisters = 31"
  by (simp add: UpdateAllRegisters_def NumRegisters_def)

lemma dirty_ok_le: "dirty_ok d \<Longrightarrow> registersToUpdate d \<le> UpdateAllRegisters"
proof -
  assume "dirty_ok d"
  then have z: "registersToUpdate d AND NOT UpdateAllRegisters = 0"
    by (simp add: dirty_ok_def)
  have "registersToUpdate d AND (UpdateAllRegisters OR NOT UpdateAllRegisters) = registersToUpdate d"
    by simp
  then have "registersToUpdate d AND UpdateAllRegisters = registersToUpdate d"
    using z by (simp only: bit.conj_disj_distrib or.right_neutral)
  then show ?thesis
    using word_and_le1 [of "registersToUpdate d" UpdateAllRegisters] by simp
qed

lemma dirty_and: "a AND n = 0 \<Longrightarrow> (a AND x) AND n = (0::u32)"
proof -
  assume a: "a AND n = 0"
  have "(a AND x) AND n = (a AND n) AND x"
    by (simp add: ac_simps)
  with a show ?thesis
    by simp
qed

lemma dirty_ok_methods:
  "dirty_ok d \<Longrightarrow> dirty_ok (SetAxisNumber a d)"
  "dirty_ok (WriteAll d)"
  "dirty_ok d \<Longrightarrow> dirty_ok (UpdateChopConfRegister d)"
  "dirty_ok d \<Longrightarrow> dirty_ok (SetCurrent c d)"
  "dirty_ok d \<Longrightarrow> dirty_ok (snd (ReadAccumulatedStatus kp d))"
  "dirty_ok d \<Longrightarrow> dirty_ok (snd (SetMicrostepping s ip d))"
  "dirty_ok d \<Longrightarrow> dirty_ok (SetStallDetectThreshold t d)"
  "dirty_ok d \<Longrightarrow> dirty_ok (SetStallDetectFilter f d)"
  "dirty_ok d \<Longrightarrow> dirty_ok (SetStallMinimumStepsPerSecond scr sps d)"
  "dirty_ok d \<Longrightarrow> dirty_ok (SetCoolStep cs d)"
  "dirty_ok d \<Longrightarrow> dirty_ok (snd (AppendDriverStatus reply d))"
  by (simp_all add: dirty_ok_def UpdateAllRegisters_31 SetAxisNumber_def WriteAll_def
      UpdateChopConfRegister_def SetCurrent_def ReadAccumulatedStatus_def SetMicrostepping_def
      SetStallDetectThreshold_def SetStallDetectFilter_def SetStallMinimumStepsPerSecond_def
      SetCoolStep_def AppendDriverStatus_def ResetLoadRegisters_def Let_def
      bit.conj_disj_distrib2 ChopperControl_def StallGuardConfig_def DriveControl_def SmartEnable_def)

lemma dirty_ok_update_field [simp]:
  "dirty_ok (d\<lparr>configuredChopConfReg := c\<rparr>) = dirty_ok d"
  "dirty_ok (d\<lparr>enabled := e\<rparr>) = dirty_ok d"
  "dirty_ok (d\<lparr>accumulatedStatus := a, lastReadStatus := l\<rparr>) = dirty_ok d"
  by (simp_all add: dirty_ok_def)

lemma dirty_ok_SetChopConf: "dirty_ok d \<Longrightarrow> dirty_ok (snd (SetChopConf v d))"
  by (auto simp: SetChopConf_def Let_def dirty_ok_methods)

lemma dirty_ok_SetOffTime: "dirty_ok d \<Longrightarrow> dirty_ok (snd (SetOffTime n d))"
  by (simp add: SetOffTime_def dirty_ok_SetChopConf)

lemma dirty_ok_SetDriverMode: "dirty_ok d \<Longrightarrow> dirty_ok (snd (SetDriverMode mode d))"
  by (cases mode) (simp_all add: dirty_ok_SetChopConf)

lemma dirty_ok_Enable: "dirty_ok d \<Longrightarrow> dirty_ok (Enable en d)"
  by (auto simp: Enable_def Let_def dirty_ok_methods)


lemma dirty_ok_TransferDone:
  "dirty_ok (driverStates g i) \<Longrightarrow> dirty_ok (driverStates (TransferDone gsi j g) i)"
  by (auto simp: TransferDone_def Let_def split_def dirty_ok_def)

lemma dirty_ok_StartTransfer:
  "dirty_ok (driverStates g i) \<Longrightarrow> dirty_ok (driverStates (StartTransfer j g) i)"
  by (auto simp: StartTransfer_def Let_def split_def dirty_ok_def dirty_and)

lemma dirty_ok_Handler:
  "dirty_ok (driverStates g i) \<Longrightarrow> dirty_ok (driverStates (TMC2660_SPI_Handler gsi g) i)"
  by (simp add: TMC2660_SPI_Handler_def Let_def dirty_ok_StartTransfer dirty_ok_TransferDone
      split: option.splits)

lemma dirty_ok_WriteAll_fold:
  "dirty_ok (driverStates g i) \<Longrightarrow>
   dirty_ok (driverStates (fold (\<lambda>driver. with_driver driver WriteAll) xs g) i)"
  by (induction xs arbitrary: g) (simp_all add: with_driver_def dirty_ok_methods)

lemma dirty_ok_Spin:
  "dirty_ok (driverStates g i) \<Longrightarrow> dirty_ok (driverStates (Spin powered g) i)"
  by (simp add: Spin_def Let_def dirty_ok_StartTransfer dirty_ok_WriteAll_fold)

lemma dirty_ok_Init: "dirty_ok (driverStates (Init scr a p j g) j)"
  by (simp add: Init_def Let_def dirty_ok_def ResetLoadRegisters_def SetMicrostepping_def
      SetStallDetectThreshold_def SetStallDetectFilter_def SetStallMinimumStepsPerSecond_def
      UpdateAllRegisters_31 DriveControl_def StallGuardConfig_def)

lemma dirty_ok_Init_fold:
  "i < n \<Longrightarrow>
   dirty_ok (driverStates (fold (\<lambda>driver. Init scr (of_nat driver) (pins driver) driver) [0..<n] g) i)"
proof (induction n)
  case 0
  then show ?case by simp
next
  case (Suc n)
  show ?case
  proof (cases "i = n")
    case True
    then show ?thesis
      by (simp add: dirty_ok_Init)
  next
    case False
    with Suc show ?thesis
      by (simp add: Init_other)
  qed
qed

lemma with_driver_dirty_ok:
  assumes "\<And>d. dirty_ok d \<Longrightarrow> dirty_ok (f d)" and "dirty_ok (driverStates g i)"
  shows "dirty_ok (driverStates (with_driver j f g) i)"
  using assms by (auto simp: with_driver_def)

lemma reachable_dirty_mask:
  "reachable scr maxd g \<Longrightarrow>
   \<forall>i<numTmc2660Drivers g. registersToUpdate (driverStates g i) \<le> UpdateAllRegisters"
proof -
  assume "reachable scr maxd g"
  then have "\<forall>i<numTmc2660Drivers g. dirty_ok (driverStates g i)"
  proof (induction rule: reachable.induct)
    case (reach_Init g0 driverSelectPins numTmcDrivers)
    show ?case
      by (simp add: SmartDrivers_Init_def Let_def dirty_ok_Init_fold)
  next
    case (reach_SetMicrostepping g driver microsteps interpolate ok g')
    then show ?case
      by (auto simp: SmartDrivers_SetMicrostepping_def dirty_ok_methods
          split: if_splits option.splits prod.splits intro!: with_driver_dirty_ok)
  next
    case (reach_SPI_Handler g GetStepInterval)
    then show ?case
      by (simp add: dirty_ok_Handler)
  next
    case (reach_Spin g powered)
    then show ?case
      by (simp add: dirty_ok_Spin)
  next
    case (reach_receive g received)
    then show ?case
      by simp
  next
    case (reach_TurnDriversOff g)
    then show ?case
      by (simp add: TurnDriversOff_def)
  qed (auto simp: SmartDrivers_SetAxisNumber_def SmartDrivers_SetCurrent_def
        SmartDrivers_EnableDrive_def SmartDrivers_GetAccumulatedStatus_def
        SmartDrivers_SetDriverMode_def SmartDrivers_SetChopperControlRegister_def
        SmartDrivers_SetOffTime_def SmartDrivers_SetStallThreshold_def
        SmartDrivers_SetStallFilter_def SmartDrivers_SetStallMinimumStepsPerSecond_def
        SmartDrivers_SetCoolStep_def SmartDrivers_AppendDriverStatus_def dirty_ok_methods
        dirty_ok_SetChopConf dirty_ok_SetOffTime dirty_ok_SetDriverMode dirty_ok_Enable
        intro!: with_driver_dirty_ok)
  then show ?thesis
    by (simp add: dirty_ok_le)
qed

subsection \<open>Spin when the power state does not change\<close>

text \<open>
  \<open>Spin\<close> with the power state the drivers already have does nothing but look whether
  polling has to be started: when the state is powered, no transfer is in flight and there
  is a driver, it starts one on driver 0.
\<close>

lemma Spin_same_power:
  assumes "driversPowered g = p"
  shows "Spin p g =
      (if p \<and> currentDriver g = None \<and> numTmc2660Drivers g \<noteq> 0
       then StartTransfer 0 (g\<lparr>nvicIrqEnabled := True\<rparr>) else g)"
proof -
  have same: "g\<lparr>driversPowered := p\<rparr> = g"
    using assms by (cases g) auto
  show ?thesis
    using assms by (simp add: Spin_def Let_def same)
qed

text \<open>
  In the states the interface can reach, a powered state with a driver always has a
  transfer in flight.
\<close>

lemma reachable_polling:
  "reachable scr maxd g \<Longrightarrow>
   driversPowered g \<longrightarrow> numTmc2660Drivers g \<noteq> 0 \<longrightarrow> currentDriver g \<noteq> None"
proof (induction rule: reachable.induct)
  case (reach_Init g0 driverSelectPins numTmcDrivers)
  have "driversPowered (fold (\<lambda>driver. Init scr (of_nat driver) (pins driver) driver) xs g)
      = driversPowered g" for xs g pins
    by (induction xs arbitrary: g) (simp_all add: Init_def Let_def)
  then show ?case
    by (simp add: SmartDrivers_Init_def Let_def)
next
  case (reach_SetMicrostepping g driver microsteps interpolate ok g')
  then show ?case
    by (auto simp: SmartDrivers_SetMicrostepping_def with_driver_def
        split: if_splits option.splits prod.splits)
next
  case (reach_SPI_Handler g GetStepInterval)
  then show ?case
    by (auto simp: TMC2660_SPI_Handler_def Let_def TransferDone_def StartTransfer_def split_def
        split: option.splits)
next
  case (reach_Spin g powered)
  have "driversPowered (fold (\<lambda>driver. with_driver driver WriteAll) xs g) = driversPowered g
      \<and> currentDriver (fold (\<lambda>driver. with_driver driver WriteAll) xs g) = currentDriver g"
    for xs g
    by (induction xs arbitrary: g) (simp_all add: with_driver_def)
  with reach_Spin show ?case
    by (auto simp: Spin_def Let_def StartTransfer_def split_def)
qed (auto simp: SmartDrivers_SetAxisNumber_def SmartDrivers_SetCurrent_def
      SmartDrivers_EnableDrive_def SmartDrivers_GetAccumulatedStatus_def
      SmartDrivers_SetDriverMode_def SmartDrivers_SetChopperControlRegister_def
      SmartDrivers_SetOffTime_def SmartDrivers_SetStallThreshold_def
      SmartDrivers_SetStallFilter_def SmartDrivers_SetStallMinimumStepsPerSecond_def
      SmartDrivers_SetCoolStep_def SmartDrivers_AppendDriverStatus_def TurnDriversOff_def
      with_driver_def)

text \<open>
  C9. In every state reached from \<open>SmartDrivers::Init\<close>, a call of \<open>Spin\<close> with the power
  state the drivers already have performs no action: the whole state (the registers and
  the bitmap of every driver, the enable line, \<open>driversPowered\<close>, \<open>currentDriver\<close> and
  the interrupt enables) is as it was before the call.
\<close>

theorem C9_spin_same_state:
  assumes "reachable StepClockRate MaxSmartDrivers g" and "driversPowered g = p"
  shows "Spin p g = g"
  using reachable_polling [OF assms(1)] assms(2) by (auto simp: Spin_same_power)

theorem C9_spin_same_state_witness:
  "reachable 937500 10 polled_example
   \<and> driversPowered polled_example = True
   \<and> Spin True polled_example = polled_example
   \<and> reachable 937500 10 example_sys
   \<and> driversPowered example_sys = False
   \<and> Spin False example_sys = example_sys"
proof -
  have p: "driversPowered polled_example = True"
    by (simp add: polled_example_globals)
  have e: "driversPowered example_sys = False"
    by (simp add: example_globals)
  show ?thesis
    using p e polled_example_reachable example_reachable
      C9_spin_same_state [OF polled_example_reachable p]
      C9_spin_same_state [OF example_reachable e]
    by simp
qed

text \<open>
  The handler and \<open>Spin\<close> only ever start a transfer on a driver in range: the index
  kept in \<open>currentDriver\<close> stays below \<open>numTmc2660Drivers\<close>, so that \<open>driverStates\<close> is
  never used beyond the drivers that were initialised.
\<close>

lemma reachable_current_in_range:
  "reachable scr maxd g \<Longrightarrow> \<forall>i. currentDriver g = Some i \<longrightarrow> i < numTmc2660Drivers g"
proof (induction rule: reachable.induct)
  case (reach_Init g0 driverSelectPins numTmcDrivers)
  have "currentDriver (fold (\<lambda>driver. Init scr (of_nat driver) (pins driver) driver) xs g)
      = currentDriver g" for xs g pins
    by (induction xs arbitrary: g) (simp_all add: Init_def Let_def)
  with reach_Init show ?case
    by (simp add: SmartDrivers_Init_def Let_def)
next
  case (reach_SetMicrostepping g driver microsteps interpolate ok g')
  then show ?case
    by (auto simp: SmartDrivers_SetMicrostepping_def with_driver_def
        split: if_splits option.splits prod.splits)
next
  case (reach_SPI_Handler g GetStepInterval)
  have "currentDriver (TransferDone GetStepInterval j g) = currentDriver g" for j
    by (simp add: TransferDone_def Let_def split_def)
  with reach_SPI_Handler show ?case
    by (auto simp: TMC2660_SPI_Handler_def Let_def StartTransfer_def split_def
        split: option.splits)
next
  case (reach_Spin g powered)
  have "currentDriver (fold (\<lambda>driver. with_driver driver WriteAll) xs g) = currentDriver g"
    for xs g
    by (induction xs arbitrary: g) (simp_all add: with_driver_def)
  with reach_Spin show ?case
    by (auto simp: Spin_def Let_def StartTransfer_def split_def)
qed (auto simp: SmartDrivers_SetAxisNumber_def SmartDrivers_SetCurrent_def
      SmartDrivers_EnableDrive_def SmartDrivers_GetAccumulatedStatus_def
      SmartDrivers_SetDriverMode_def SmartDrivers_SetChopperControlRegister_def
      SmartDrivers_SetOffTime_def SmartDrivers_SetStallThreshold_def
      SmartDrivers_SetStallFilter_def SmartDrivers_SetStallMinimumStepsPerSecond_def
      SmartDrivers_SetCoolStep_def SmartDrivers_AppendDriverStatus_def TurnDriversOff_def
      with_driver_def)

end
